theory Spec2Isabelle
  imports Main
begin

section \<open>Python strings and numbers\<close>

text \<open>
  A Python \<open>str\<close> is a sequence of Unicode code points. Isabelle's \<open>char\<close> is a
  byte, so the model uses lists of code points; \<open>asc\<close> embeds an ASCII literal. The
  Russian literals of the source are written out as code points further below.
\<close>

type_synonym pystr = "nat list"

definition asc :: "string \<Rightarrow> pystr" where
  "asc s = map of_char s"

text \<open>Decimal digits of a natural number.\<close>

fun nat_digits :: "nat \<Rightarrow> pystr" where
  "nat_digits n = (if n < 10 then [48 + n] else nat_digits (n div 10) @ [48 + n mod 10])"

declare nat_digits.simps [simp del]

text \<open>The decimal digits of an integer, with its sign.\<close>

definition int_digits :: "int \<Rightarrow> pystr" where
  "int_digits i = (if i < 0 then asc ''-'' @ nat_digits (nat (- i)) else nat_digits (nat i))"

subsection \<open>Floats\<close>

text \<open>
  A Python \<open>float\<close> is an IEEE 754 binary64 value: \<open>Finite s m e\<close> is
  \<open>(-1) ^ s * m * 2 ^ e\<close>, in the format's normal form (\<open>2 ^ 52 \<le> m < 2 ^ 53\<close> and
  \<open>-1074 \<le> e \<le> 971\<close>, or \<open>m < 2 ^ 52\<close> and \<open>e = -1074\<close> for zero and the
  subnormals). The sign bit is kept for a zero too. All arithmetic below is on integers.
\<close>

datatype pyfloat = Finite bool nat int | Infinity bool | NaN

text \<open>\<open>a / b\<close> rounded to the nearest integer, a tie to the even one (\<open>b > 0\<close>).\<close>

definition rhe_div :: "nat \<Rightarrow> nat \<Rightarrow> nat" where
  "rhe_div a b =
     (let q = a div b; r = a mod b
      in if 2 * r < b then q else if b < 2 * r then q + 1
         else if even q then q else q + 1)"

fun bit_length :: "nat \<Rightarrow> nat" where
  "bit_length n = (if n = 0 then 0 else Suc (bit_length (n div 2)))"

declare bit_length.simps [simp del]

text \<open>
  \<open>round_to_double s a b\<close> is the float nearest to \<open>a / b\<close> (\<open>b > 0\<close>) with sign bit
  \<open>s\<close>: 53 significant bits, least exponent \<open>-1074\<close>, round half to even, and an
  infinity from \<open>2 ^ 1024\<close> on.
\<close>

definition round_to_double :: "bool \<Rightarrow> nat \<Rightarrow> nat \<Rightarrow> pyfloat" where
  "round_to_double s a b =
     (if a = 0 then Finite s 0 (- 1074)
      else let e0 = int (bit_length a) - int (bit_length b);
               ex = (if (if 0 \<le> e0 then b * 2 ^ nat e0 \<le> a else b \<le> a * 2 ^ nat (- e0))
                     then e0 else e0 - 1);
               u = max (ex - 52) (- 1074);
               m = (if 0 \<le> u then rhe_div a (b * 2 ^ nat u)
                    else rhe_div (a * 2 ^ nat (- u)) b);
               m' = (if m = 2 ^ 53 then 2 ^ 52 else m);
               u' = (if m = 2 ^ 53 then u + 1 else u)
           in if 971 < u' then Infinity s else Finite s m' u')"

text \<open>The float a decimal literal \<open>m * 10 ^ e\<close> denotes (\<open>5.6\<close> is \<open>float_lit 56 (-1)\<close>).\<close>

definition float_lit :: "int \<Rightarrow> int \<Rightarrow> pyfloat" where
  "float_lit m e =
     (if 0 \<le> e then round_to_double (m < 0) (nat \<bar>m\<bar> * 10 ^ nat e) 1
      else round_to_double (m < 0) (nat \<bar>m\<bar>) (10 ^ nat (- e)))"

text \<open>Conversion of an \<open>int\<close> operand: \<open>None\<close> is Python's OverflowError.\<close>

definition float_of_int :: "int \<Rightarrow> pyfloat option" where
  "float_of_int n =
     (case round_to_double (n < 0) (nat \<bar>n\<bar>) 1 of
        Finite s m e \<Rightarrow> Some (Finite s m e)
      | _ \<Rightarrow> None)"

fun float_mul :: "pyfloat \<Rightarrow> pyfloat \<Rightarrow> pyfloat" where
  "float_mul NaN _ = NaN"
| "float_mul _ NaN = NaN"
| "float_mul (Infinity s) (Infinity t) = Infinity (s \<noteq> t)"
| "float_mul (Infinity s) (Finite t n f) = (if n = 0 then NaN else Infinity (s \<noteq> t))"
| "float_mul (Finite s m e) (Infinity t) = (if m = 0 then NaN else Infinity (s \<noteq> t))"
| "float_mul (Finite s m e) (Finite t n f) =
     (if 0 \<le> e + f then round_to_double (s \<noteq> t) (m * n * 2 ^ nat (e + f)) 1
      else round_to_double (s \<noteq> t) (m * n) (2 ^ nat (- (e + f))))"

text \<open>
  The format specification \<open>.1f\<close> on a float: the exact value rounded half to even at
  one decimal place, the sign bit printed also for a zero.
\<close>

definition float_format_1f :: "pyfloat \<Rightarrow> pystr" where
  "float_format_1f x =
     (case x of
        NaN \<Rightarrow> asc ''nan''
      | Infinity s \<Rightarrow> (if s then asc ''-inf'' else asc ''inf'')
      | Finite s m e \<Rightarrow>
          (let n = (if 0 \<le> e then m * 10 * 2 ^ nat e else rhe_div (m * 10) (2 ^ nat (- e)))
           in (if s then asc ''-'' else []) @ nat_digits (n div 10) @ asc ''.''
              @ nat_digits (n mod 10)))"

text \<open>
  \<open>str\<close> and \<open>repr\<close> of a float: the shortest digit string that reads back as the
  same float, the nearest such to the value; scientific notation when the decimal point
  would lie more than 16 places right of the first digit or more than 4 places left of it.
  \<open>dec_exponent a b\<close> is the decimal exponent of \<open>a / b\<close>, and \<open>digits_at\<close> looks
  for a candidate \<open>n * 10 ^ sc\<close> with \<open>k\<close> significant digits.
\<close>

definition dec_exponent :: "nat \<Rightarrow> nat \<Rightarrow> int" where
  "dec_exponent a b =
     (if b \<le> a then int (length (nat_digits (a div b))) - 1
      else - int (length (nat_digits ((b - 1) div a))))"

definition strip_zeros :: "pystr \<Rightarrow> pystr" where
  "strip_zeros ds = rev (dropWhile (\<lambda>c. c = 48) (rev ds))"

definition reads_back :: "nat \<Rightarrow> int \<Rightarrow> nat \<Rightarrow> int \<Rightarrow> bool" where
  "reads_back n sc m e =
     ((if 0 \<le> sc then round_to_double False (n * 10 ^ nat sc) 1
       else round_to_double False n (10 ^ nat (- sc))) = Finite False m e)"

text \<open>The value \<open>m * 2 ^ e / 10 ^ sc\<close> as a fraction of naturals.\<close>

definition scaled :: "nat \<Rightarrow> int \<Rightarrow> int \<Rightarrow> nat \<times> nat" where
  "scaled m e sc =
     ((if 0 \<le> e then m * 2 ^ nat e else m) * (if 0 \<le> sc then 1 else 10 ^ nat (- sc)),
      (if 0 \<le> e then 1 else 2 ^ nat (- e)) * (if 0 \<le> sc then 10 ^ nat sc else 1))"

definition digits_at :: "nat \<Rightarrow> int \<Rightarrow> int \<Rightarrow> nat option" where
  "digits_at m e sc =
     (let (xn, xd) = scaled m e sc;
          lo = xn div xd;
          hi = (if xn mod xd = 0 then lo else lo + 1)
      in if reads_back lo sc m e \<and> reads_back hi sc m e then Some (rhe_div xn xd)
         else if reads_back lo sc m e then Some lo
         else if reads_back hi sc m e then Some hi
         else None)"

function shortest_digits :: "nat \<Rightarrow> int \<Rightarrow> nat \<Rightarrow> nat \<times> int" where
  "shortest_digits m e k =
     (let sc = (case scaled m e 0 of (a, b) \<Rightarrow> dec_exponent a b) - int k + 1
      in if 17 \<le> k then (case scaled m e sc of (xn, xd) \<Rightarrow> (rhe_div xn xd, sc))
         else case digits_at m e sc of
                Some n \<Rightarrow> (n, sc)
              | None \<Rightarrow> shortest_digits m e (Suc k))"
  by pat_completeness auto
termination
  by (relation "measure (\<lambda>(m, e, k). 17 - k)") auto

declare shortest_digits.simps [simp del]

definition float_repr :: "pyfloat \<Rightarrow> pystr" where
  "float_repr x =
     (case x of
        NaN \<Rightarrow> asc ''nan''
      | Infinity s \<Rightarrow> (if s then asc ''-inf'' else asc ''inf'')
      | Finite s m e \<Rightarrow>
          (if s then asc ''-'' else []) @
          (if m = 0 then asc ''0.0''
           else let (n, sc) = shortest_digits m e 1;
                    ds = strip_zeros (nat_digits n);
                    decpt = int (length (nat_digits n)) + sc
                in if decpt \<le> - 4 \<or> 16 < decpt then
                     take 1 ds @ (if 1 < length ds then asc ''.'' @ drop 1 ds else [])
                     @ asc ''e'' @ (if decpt - 1 < 0 then asc ''-'' else asc ''+'')
                     @ (if \<bar>decpt - 1\<bar> < 10 then asc ''0'' else [])
                     @ nat_digits (nat \<bar>decpt - 1\<bar>)
                   else if decpt \<le> 0 then
                     asc ''0.'' @ replicate (nat (- decpt)) 48 @ ds
                   else if int (length ds) \<le> decpt then
                     ds @ replicate (nat (decpt - int (length ds))) 48 @ asc ''.0''
                   else take (nat decpt) ds @ asc ''.'' @ drop (nat decpt) ds))"

subsection \<open>Values and exceptions\<close>

text \<open>
  The values a provider can hand to a tool are those a decoded JSON document is made
  of. A \<open>dict\<close> is an association list with string keys, looked up from the front.
  An exception carries the operand it complains about.
\<close>

datatype pyval =
    PNone
  | PBool bool
  | PInt int
  | PFloat pyfloat
  | PStr pystr
  | PList "pyval list"
  | PDict "(pystr \<times> pyval) list"

datatype pykey = KStr pystr | KInt int

datatype req_error = ConnectionError | Timeout | OtherRequestError

datatype pyexn =
    KeyError pykey
  | IndexError pyval
  | TypeError pyval
  | AttributeError pyval
  | ValueError pyval
  | OverflowError pyval
  | RecursionError pyval
  | RequestsError req_error

section \<open>http\_client.py\<close>

text \<open>
  \<open>requests.get\<close> either returns a response or raises. The outside world is a script
  \<open>world\<close>: the outcome of the \<open>k\<close>-th GET issued (counted from 0). The state
  records what the client did: every request sent and every delay slept.
\<close>

record response =
  status_code :: int
  text_body :: pystr

datatype get_outcome = Responded response | Raised req_error

record client_state =
  sent :: "(pystr \<times> pyfloat) list"
  slept :: "pyfloat list"

definition idle :: client_state where
  "idle = \<lparr>sent = [], slept = []\<rparr>"

text \<open>The clause \<open>except (requests.ConnectionError, requests.Timeout)\<close>.\<close>

fun caught :: "req_error \<Rightarrow> bool" where
  "caught ConnectionError = True"
| "caught Timeout = True"
| "caught OtherRequestError = False"

text \<open>
  \<open>backoff_seconds * attempt\<close>: the \<open>int\<close> is converted to a float first, which
  raises OverflowError when it is too large.
\<close>

definition backoff_delay :: "pyfloat \<Rightarrow> int \<Rightarrow> pyexn + pyfloat" where
  "backoff_delay backoff_seconds attempt =
     (case float_of_int attempt of
        None \<Rightarrow> Inl (OverflowError (PInt attempt))
      | Some a \<Rightarrow> Inr (float_mul backoff_seconds a))"

text \<open>
  \<open>time.sleep\<close> converts the delay to whole nanoseconds (rounding away from zero) in a
  signed 64-bit count. It raises ValueError for NaN, OverflowError when the count does
  not fit, and ValueError for a negative delay. What the operating system makes of an
  accepted delay is outside the model.
\<close>

definition ceil_scaled :: "nat \<Rightarrow> int \<Rightarrow> nat" where
  "ceil_scaled m e =
     (if 0 \<le> e then m * 2 ^ nat e else (m + 2 ^ nat (- e) - 1) div 2 ^ nat (- e))"

definition time_sleep :: "pyfloat \<Rightarrow> pyexn + unit" where
  "time_sleep d =
     (case d of
        NaN \<Rightarrow> Inl (ValueError (PFloat d))
      | _ \<Rightarrow>
         (case float_mul d (float_lit 1 9) of
            Finite s m e \<Rightarrow>
              if (if s then 2 ^ 63 < ceil_scaled m e else 2 ^ 63 \<le> ceil_scaled m e)
              then Inl (OverflowError (PFloat d))
              else if s \<and> 0 < m then Inl (ValueError (PFloat d))
              else Inr ()
          | _ \<Rightarrow> Inl (OverflowError (PFloat d))))"

text \<open>
  The loop \<open>for attempt in range(1, retries + 1)\<close> of \<open>get_with_retries\<close>, from
  the iteration \<open>attempt\<close> on. The result is \<open>Inr (Some resp)\<close> for
  \<open>return resp\<close>, \<open>Inr None\<close> for \<open>return None\<close>, and \<open>Inl e\<close> when \<open>e\<close>
  propagates to the caller: an error of \<open>requests.get\<close> that the \<open>except\<close> clause
  does not name, or one raised inside the handler by the delay. The variable
  \<open>last_exc\<close> is assigned and never read, so the model leaves it out.
\<close>

function attempts ::
  "(nat \<Rightarrow> get_outcome) \<Rightarrow> pystr \<Rightarrow> int \<Rightarrow> pyfloat \<Rightarrow> pyfloat \<Rightarrow> int \<Rightarrow> client_state
     \<Rightarrow> (pyexn + response option) \<times> client_state" where
  "attempts world url retries backoff_seconds timeout attempt s =
     (if retries < attempt then (Inr None, s)
      else
        (case world (length (sent s)) of
           Responded resp \<Rightarrow> (Inr (Some resp), s\<lparr>sent := sent s @ [(url, timeout)]\<rparr>)
         | Raised exc \<Rightarrow>
             if \<not> caught exc then (Inl (RequestsError exc), s\<lparr>sent := sent s @ [(url, timeout)]\<rparr>)
             else if attempt = retries then (Inr None, s\<lparr>sent := sent s @ [(url, timeout)]\<rparr>)
             else
               (case backoff_delay backoff_seconds attempt of
                  Inl e \<Rightarrow> (Inl e, s\<lparr>sent := sent s @ [(url, timeout)]\<rparr>)
                | Inr d \<Rightarrow>
                    (case time_sleep d of
                       Inl e \<Rightarrow> (Inl e, s\<lparr>sent := sent s @ [(url, timeout)]\<rparr>)
                     | Inr _ \<Rightarrow>
                         attempts world url retries backoff_seconds timeout (attempt + 1)
                           (s\<lparr>sent := sent s @ [(url, timeout)], slept := slept s @ [d]\<rparr>)))))"
  by pat_completeness auto
termination
  by (relation "measure (\<lambda>(world, url, retries, backoff_seconds, timeout, attempt, s).
        nat (retries + 1 - attempt))") auto

declare attempts.simps [simp del]

definition get_with_retries ::
  "(nat \<Rightarrow> get_outcome) \<Rightarrow> pystr \<Rightarrow> int \<Rightarrow> pyfloat \<Rightarrow> pyfloat \<Rightarrow> client_state
     \<Rightarrow> (pyexn + response option) \<times> client_state" where
  "get_with_retries world url retries backoff_seconds timeout s =
     attempts world url retries backoff_seconds timeout 1 s"

text \<open>The delays of a call are accepted when no \<open>time.sleep\<close> of the loop raises.\<close>

definition delays_accepted :: "pyfloat \<Rightarrow> int \<Rightarrow> bool" where
  "delays_accepted backoff_seconds retries =
     list_all
       (\<lambda>a. case backoff_delay backoff_seconds a of
               Inl e \<Rightarrow> False
             | Inr d \<Rightarrow> time_sleep d = Inr ())
       [1..retries - 1]"

section \<open>agent\_weather\_time.py\<close>

subsection \<open>The string literals of the tools\<close>

text \<open>
  The fragments of the (Russian) string literals and f-strings of the tools, as code
  points, each named after what it says; the ASCII ones are written with \<open>asc\<close> where
  they are used.
\<close>

text \<open>The placeholder city of lines 109 and 146.\<close>

definition lit_unknown_city :: pystr where
  "lit_unknown_city =
     [1085, 1077, 1080, 1079, 1074, 1077, 1089, 1090, 1085, 1099, 1081, 32, 1075, 1086,
      1088, 1086, 1076]"

text \<open>Line 113, up to the city.\<close>

definition lit_weather_failed :: pystr where
  "lit_weather_failed =
     [1053, 1077, 32, 1091, 1076, 1072, 1083, 1086, 1089, 1100, 32, 1087, 1086, 1083, 1091,
      1095, 1080, 1090, 1100, 32, 1087, 1086, 1075, 1086, 1076, 1091, 32, 1076, 1083, 1103,
      32]"

text \<open>Line 122, up to the place name.\<close>

definition lit_current_weather_in :: pystr where
  "lit_current_weather_in =
     [1058, 1077, 1082, 1091, 1097, 1072, 1103, 32, 1087, 1086, 1075, 1086, 1076, 1072, 32,
      1074, 32]"

text \<open>Line 122, after the temperature.\<close>

definition lit_degrees_comma :: pystr where
  "lit_degrees_comma = [176, 67, 44, 32]"

text \<open>Lines 124 and 195.\<close>

definition lit_humidity_word :: pystr where
  "lit_humidity_word =
     [1074, 1083, 1072, 1078, 1085, 1086, 1089, 1090, 1100, 32]"

text \<open>Lines 126 and 197.\<close>

definition lit_wind_word :: pystr where
  "lit_wind_word =
     [1074, 1077, 1090, 1077, 1088, 32]"

text \<open>Lines 126 and 197.\<close>

definition lit_metres_per_second :: pystr where
  "lit_metres_per_second =
     [32, 1084, 47, 1089]"

text \<open>Line 130, up to the city.\<close>

definition lit_weather_unexpected :: pystr where
  "lit_weather_unexpected =
     [1053, 1077, 1086, 1078, 1080, 1076, 1072, 1085, 1085, 1099, 1081, 32, 1092, 1086,
      1088, 1084, 1072, 1090, 32, 1086, 1090, 1074, 1077, 1090, 1072, 32, 1087, 1086, 1075,
      1086, 1076, 1099, 32, 1076, 1083, 1103, 32]"

text \<open>Line 150.\<close>

definition lit_offset_negative :: pystr where
  "lit_offset_negative =
     [100, 97, 121, 95, 111, 102, 102, 115, 101, 116, 32, 1085, 1077, 32, 1084, 1086, 1078,
      1077, 1090, 32, 1073, 1099, 1090, 1100, 32, 1086, 1090, 1088, 1080, 1094, 1072, 1090,
      1077, 1083, 1100, 1085, 1099, 1084, 46]"

text \<open>Line 154, up to the city.\<close>

definition lit_forecast_failed :: pystr where
  "lit_forecast_failed =
     [1053, 1077, 32, 1091, 1076, 1072, 1083, 1086, 1089, 1100, 32, 1087, 1086, 1083, 1091,
      1095, 1080, 1090, 1100, 32, 1077, 1078, 1077, 1076, 1085, 1077, 1074, 1085, 1099,
      1081, 32, 1087, 1088, 1086, 1075, 1085, 1086, 1079, 32, 1076, 1083, 1103, 32]"

text \<open>Line 159, up to the city.\<close>

definition lit_forecast_unexpected :: pystr where
  "lit_forecast_unexpected =
     [1053, 1077, 1086, 1078, 1080, 1076, 1072, 1085, 1085, 1099, 1081, 32, 1092, 1086,
      1088, 1084, 1072, 1090, 32, 1077, 1078, 1077, 1076, 1085, 1077, 1074, 1085, 1086,
      1075, 1086, 32, 1087, 1088, 1086, 1075, 1085, 1086, 1079, 1072, 32, 1076, 1083, 1103,
      32]"

text \<open>Line 163, up to the length.\<close>

definition lit_only_days_head :: pystr where
  "lit_only_days_head =
     [79, 112, 101, 110, 87, 101, 97, 116, 104, 101, 114, 77, 97, 112, 32, 1074, 1077,
      1088, 1085, 1091, 1083, 32, 1087, 1088, 1086, 1075, 1085, 1086, 1079, 32, 1090, 1086,
      1083, 1100, 1082, 1086, 32, 1085, 1072, 32]"

text \<open>Line 163, after the length.\<close>

definition lit_only_days_tail :: pystr where
  "lit_only_days_tail =
     [32, 1076, 1085, 1077, 1081, 46, 32]"

text \<open>Line 164, up to the offset.\<close>

definition lit_offset_equals :: pystr where
  "lit_offset_equals =
     [100, 97, 121, 95, 111, 102, 102, 115, 101, 116, 61]"

text \<open>Line 164, after the offset.\<close>

definition lit_out_of_range :: pystr where
  "lit_out_of_range =
     [32, 1074, 1099, 1081, 1090, 1080, 32, 1079, 1072, 32, 1076, 1086, 1089, 1090, 1091,
      1087, 1085, 1099, 1081, 32, 1076, 1080, 1072, 1087, 1072, 1079, 1086, 1085, 46]"

text \<open>Line 175.\<close>

definition lit_no_description :: pystr where
  "lit_no_description =
     [1085, 1077, 1090, 32, 1086, 1087, 1080, 1089, 1072, 1085, 1080, 1103]"

text \<open>Line 181.\<close>

definition lit_today :: pystr where
  "lit_today =
     [1089, 1077, 1075, 1086, 1076, 1085, 1103]"

text \<open>Line 183.\<close>

definition lit_tomorrow :: pystr where
  "lit_tomorrow =
     [1079, 1072, 1074, 1090, 1088, 1072]"

text \<open>Line 185, up to the offset.\<close>

definition lit_in_days_head :: pystr where
  "lit_in_days_head =
     [1095, 1077, 1088, 1077, 1079, 32]"

text \<open>Line 185, after the offset.\<close>

definition lit_in_days_tail :: pystr where
  "lit_in_days_tail =
     [32, 1076, 1085, 1077, 1081]"

text \<open>Line 187, up to the city.\<close>

definition lit_forecast_for :: pystr where
  "lit_forecast_for =
     [1055, 1088, 1086, 1075, 1085, 1086, 1079, 32, 1076, 1083, 1103, 32]"

text \<open>Line 187, between the city and the day label.\<close>

definition lit_on_day :: pystr where
  "lit_on_day =
     [32, 1085, 1072, 32]"

text \<open>Line 190.\<close>

definition lit_temperature_from :: pystr where
  "lit_temperature_from =
     [1090, 1077, 1084, 1087, 1077, 1088, 1072, 1090, 1091, 1088, 1072, 32, 1086, 1090, 32]"

text \<open>Line 190.\<close>

definition lit_degrees_to :: pystr where
  "lit_degrees_to =
     [176, 67, 32, 1076, 1086, 32]"

text \<open>Lines 190 and 192.\<close>

definition lit_degrees :: pystr where
  "lit_degrees =
     [176, 67]"

text \<open>Line 192.\<close>

definition lit_temperature_about :: pystr where
  "lit_temperature_about =
     [1090, 1077, 1084, 1087, 1077, 1088, 1072, 1090, 1091, 1088, 1072, 32, 1086, 1082,
      1086, 1083, 1086, 32]"

text \<open>Line 199.\<close>

definition lit_attribution :: pystr where
  "lit_attribution =
     [32, 40, 1087, 1086, 32, 1076, 1072, 1085, 1085, 1099, 1084, 32, 79, 112, 101, 110,
      87, 101, 97, 116, 104, 101, 114, 77, 97, 112, 32, 79, 110, 101, 32, 67, 97, 108, 108,
      41, 46]"

text \<open>Line 201, up to the city.\<close>

definition lit_processing_failed :: pystr where
  "lit_processing_failed =
     [1053, 1077, 32, 1091, 1076, 1072, 1083, 1086, 1089, 1100, 32, 1086, 1073, 1088, 1072,
      1073, 1086, 1090, 1072, 1090, 1100, 32, 1076, 1072, 1085, 1085, 1099, 1077, 32, 1077,
      1078, 1077, 1076, 1085, 1077, 1074, 1085, 1086, 1075, 1086, 32, 1087, 1088, 1086,
      1075, 1085, 1086, 1079, 1072, 32, 1076, 1083, 1103, 32]"

text \<open>Line 236, up to the readable time.\<close>

definition lit_local_time_head :: pystr where
  "lit_local_time_head =
     [1051, 1086, 1082, 1072, 1083, 1100, 1085, 1086, 1077, 32, 1089, 1080, 1089, 1090,
      1077, 1084, 1085, 1086, 1077, 32, 1074, 1088, 1077, 1084, 1103, 58, 32]"

text \<open>Line 236.\<close>

definition lit_iso_open :: pystr where
  "lit_iso_open =
     [32, 40, 73, 83, 79, 58, 32]"

subsection \<open>The Python operations the tools use\<close>

text \<open>Sequencing of steps that may raise: the first exception ends the block.\<close>

fun bind :: "pyexn + 'a \<Rightarrow> ('a \<Rightarrow> pyexn + 'b) \<Rightarrow> pyexn + 'b" where
  "bind (Inl e) f = Inl e"
| "bind (Inr x) f = f x"

text \<open>
  Three things are fixed by the interpreter (its version, its Unicode tables and its call
  stack) and not by this repository: \<open>repr\<close> of a \<open>str\<close> (quoting and escaping), the
  message text of a built-in exception, and how deeply nested a list or dict \<open>repr\<close>
  follows before it raises RecursionError. They are parameters of the model.
\<close>

record interp =
  repr_str :: "pystr \<Rightarrow> pystr"
  exn_text :: "pyexn \<Rightarrow> pystr"
  repr_depth :: nat

text \<open>\<open>sep.join(parts)\<close>.\<close>

fun join :: "pystr \<Rightarrow> pystr list \<Rightarrow> pystr" where
  "join sep [] = []"
| "join sep [x] = x"
| "join sep (x # y # ys) = x @ sep @ join sep (y # ys)"

text \<open>
  Conversion of an \<open>int\<close> to a decimal string raises ValueError when the integer has
  more than \<open>sys.int_info.default_max_str_digits\<close> digits (4300; the source does not
  change the limit).
\<close>

definition max_str_digits :: nat where
  "max_str_digits = 4300"

definition int_str :: "int \<Rightarrow> pyexn + pystr" where
  "int_str i =
     (if 10 ^ max_str_digits \<le> \<bar>i\<bar> then Inl (ValueError (PInt i)) else Inr (int_digits i))"

text \<open>
  \<open>repr(v)\<close> with \<open>d\<close> levels of nesting left; the elements of a list and the items
  of a dict are rendered in order, and the first exception ends the rendering.
\<close>

fun py_repr_at :: "interp \<Rightarrow> nat \<Rightarrow> pyval \<Rightarrow> pyexn + pystr"
  and py_repr_list :: "interp \<Rightarrow> nat \<Rightarrow> pyval list \<Rightarrow> pyexn + pystr list"
  and py_repr_items :: "interp \<Rightarrow> nat \<Rightarrow> (pystr \<times> pyval) list \<Rightarrow> pyexn + pystr list" where
  "py_repr_at env d PNone = Inr (asc ''None'')"
| "py_repr_at env d (PBool b) = Inr (if b then asc ''True'' else asc ''False'')"
| "py_repr_at env d (PInt i) = int_str i"
| "py_repr_at env d (PFloat x) = Inr (float_repr x)"
| "py_repr_at env d (PStr s) = Inr (repr_str env s)"
| "py_repr_at env d (PList xs) =
     (if d = 0 then Inl (RecursionError (PList xs))
      else bind (py_repr_list env (d - 1) xs) (\<lambda>parts.
           Inr (asc ''['' @ join (asc '', '') parts @ asc '']'')))"
| "py_repr_at env d (PDict kvs) =
     (if d = 0 then Inl (RecursionError (PDict kvs))
      else bind (py_repr_items env (d - 1) kvs) (\<lambda>parts.
           Inr (asc ''{'' @ join (asc '', '') parts @ asc ''}'')))"
| "py_repr_list env d [] = Inr []"
| "py_repr_list env d (x # xs) =
     bind (py_repr_at env d x) (\<lambda>s.
     bind (py_repr_list env d xs) (\<lambda>rest.
     Inr (s # rest)))"
| "py_repr_items env d [] = Inr []"
| "py_repr_items env d (kv # kvs) =
     bind (py_repr_at env d (snd kv)) (\<lambda>s.
     bind (py_repr_items env d kvs) (\<lambda>rest.
     Inr ((repr_str env (fst kv) @ asc '': '' @ s) # rest)))"

text \<open>\<open>str(v)\<close>, which is what a replacement field \<open>{v}\<close> prints.\<close>

definition py_str :: "interp \<Rightarrow> pyval \<Rightarrow> pyexn + pystr" where
  "py_str env v = (case v of PStr s \<Rightarrow> Inr s | _ \<Rightarrow> py_repr_at env (repr_depth env) v)"

text \<open>Truth value, as \<open>or\<close>, \<open>not\<close> and a conditional expression test it.\<close>

fun truthy :: "pyval \<Rightarrow> bool" where
  "truthy PNone = False"
| "truthy (PBool b) = b"
| "truthy (PInt i) = (i \<noteq> 0)"
| "truthy (PFloat (Finite s m e)) = (m \<noteq> 0)"
| "truthy (PFloat x) = True"
| "truthy (PStr s) = (s \<noteq> [])"
| "truthy (PList xs) = (xs \<noteq> [])"
| "truthy (PDict kvs) = (kvs \<noteq> [])"

text \<open>\<open>isinstance(v, dict) and key in v\<close>.\<close>

fun dict_has :: "pyval \<Rightarrow> pystr \<Rightarrow> bool" where
  "dict_has (PDict kvs) key = (map_of kvs key \<noteq> None)"
| "dict_has v key = False"

text \<open>
  \<open>v[key]\<close> with a string or an integer key. A negative index of a list or a string
  counts from the end; no key of a dict is an integer.
\<close>

definition at_index :: "'a list \<Rightarrow> int \<Rightarrow> 'a option" where
  "at_index xs i =
     (let n = int (length xs); j = (if i < 0 then i + n else i)
      in if 0 \<le> j \<and> j < n then Some (xs ! nat j) else None)"

fun subscript :: "pyval \<Rightarrow> pykey \<Rightarrow> pyexn + pyval" where
  "subscript (PDict kvs) (KStr k) =
     (case map_of kvs k of Some v \<Rightarrow> Inr v | None \<Rightarrow> Inl (KeyError (KStr k)))"
| "subscript (PDict kvs) (KInt i) = Inl (KeyError (KInt i))"
| "subscript (PList xs) (KInt i) =
     (case at_index xs i of Some v \<Rightarrow> Inr v | None \<Rightarrow> Inl (IndexError (PList xs)))"
| "subscript (PStr s) (KInt i) =
     (case at_index s i of Some c \<Rightarrow> Inr (PStr [c]) | None \<Rightarrow> Inl (IndexError (PStr s)))"
| "subscript v k = Inl (TypeError v)"

text \<open>\<open>v.get(key, default)\<close>: only a dict has the method.\<close>

fun get_method :: "pyval \<Rightarrow> pystr \<Rightarrow> pyval \<Rightarrow> pyexn + pyval" where
  "get_method (PDict kvs) key dflt =
     Inr (case map_of kvs key of Some v \<Rightarrow> v | None \<Rightarrow> dflt)"
| "get_method v key dflt = Inl (AttributeError v)"

fun py_len :: "pyval \<Rightarrow> pyexn + int" where
  "py_len (PList xs) = Inr (int (length xs))"
| "py_len (PStr s) = Inr (int (length s))"
| "py_len (PDict kvs) = Inr (int (length kvs))"
| "py_len v = Inl (TypeError v)"

text \<open>
  A replacement field \<open>{v:.1f}\<close>: a float is formatted, an \<open>int\<close> (and a \<open>bool\<close>,
  which is one) is converted to a float first, a \<open>str\<close> raises ValueError, anything
  else TypeError.
\<close>

fun format_1f :: "pyval \<Rightarrow> pyexn + pystr" where
  "format_1f (PFloat x) = Inr (float_format_1f x)"
| "format_1f (PInt i) =
     (case float_of_int i of
        Some x \<Rightarrow> Inr (float_format_1f x)
      | None \<Rightarrow> Inl (OverflowError (PInt i)))"
| "format_1f (PBool b) = Inr (float_format_1f (float_lit (if b then 1 else 0) 0))"
| "format_1f (PStr s) = Inl (ValueError (PStr s))"
| "format_1f v = Inl (TypeError v)"

text \<open>
  \<open>s.strip()\<close> removes the leading and trailing code points that \<open>str.isspace\<close>
  accepts.
\<close>

definition is_space :: "nat \<Rightarrow> bool" where
  "is_space c =
     ((9 \<le> c \<and> c \<le> 13) \<or> (28 \<le> c \<and> c \<le> 32) \<or> c = 133 \<or> c = 160 \<or> c = 5760
      \<or> (8192 \<le> c \<and> c \<le> 8202) \<or> c = 8232 \<or> c = 8233 \<or> c = 8239 \<or> c = 8287
      \<or> c = 12288)"

definition strip :: "pystr \<Rightarrow> pystr" where
  "strip s = rev (dropWhile is_space (rev (dropWhile is_space s)))"


text \<open>
  An instance of the interpreter's parameters for concrete examples: a \<open>str\<close> between
  apostrophes, one message for every exception, and a thousand levels of nesting.
\<close>

definition sample_interp :: interp where
  "sample_interp = \<lparr>repr_str = (\<lambda>s. asc [CHR 0x27] @ s @ asc [CHR 0x27]),
                     exn_text = (\<lambda>e. asc ''error''),
                     repr_depth = 1000\<rparr>"

subsection \<open>The context and response schemas\<close>

record AgentContext =
  user_id :: pystr
  user_name :: pystr
  default_city :: pystr
  default_timezone :: pystr

record AssistantResponse =
  intent :: pystr
  summary :: pystr
  location :: "pystr option"
  temperature_c :: "pyfloat option"
  conditions :: "pystr option"
  local_time :: "pystr option"
  reasoning :: pystr

text \<open>\<open>ToolRuntime[AgentContext]\<close>: what a tool reads of it is its \<open>context\<close>.\<close>

record ToolRuntime =
  runtime_context :: AgentContext

subsection \<open>The tools\<close>

text \<open>
  The provider functions \<open>get_weather_by_city\<close> and \<open>get_daily_forecast_by_city\<close>
  are imported from \<open>weather_app\<close>; a tool takes the one it calls as a parameter, a
  function from the city to the value returned (a provider reports a failure as a record
  with an \<open>error\<close> field, which the tools test for). Each tool returns the list of
  arguments it called the provider with, and its outcome: \<open>Inr s\<close> when it returns the
  string \<open>s\<close>, \<open>Inl e\<close> when \<open>e\<close> propagates to its caller.
\<close>

text \<open>\<open>city.strip() or "..."\<close> (lines 109 and 146): an empty \<open>str\<close> is false.\<close>

definition normalize_city :: "pystr \<Rightarrow> pystr" where
  "normalize_city city = (if strip city = [] then lit_unknown_city else strip city)"

text \<open>\<open>a or b\<close> on values.\<close>

definition py_or :: "pyval \<Rightarrow> pyval \<Rightarrow> pyval" where
  "py_or a b = (if truthy a then a else b)"

text \<open>
  An optional part of a sentence (lines 123 to 126 and 194 to 197): nothing for \<open>None\<close>,
  else the value between two literals.
\<close>

definition optional_part :: "interp \<Rightarrow> pystr \<Rightarrow> pyval \<Rightarrow> pystr \<Rightarrow> pyexn + pystr list" where
  "optional_part env before v behind =
     (if v \<noteq> PNone then bind (py_str env v) (\<lambda>shown. Inr [before @ shown @ behind])
      else Inr [])"

text \<open>The \<open>try\<close> block of \<open>get_weather_for_location\<close> (lines 116 to 128).\<close>

definition weather_summary :: "interp \<Rightarrow> pyval \<Rightarrow> pyexn + pystr" where
  "weather_summary env weather =
     bind (subscript weather (KStr (asc ''name''))) (\<lambda>name.
     bind (subscript weather (KStr (asc ''main''))) (\<lambda>main.
     bind (subscript main (KStr (asc ''temp''))) (\<lambda>temp.
     bind (subscript weather (KStr (asc ''weather''))) (\<lambda>weather_list.
     bind (subscript weather_list (KInt 0)) (\<lambda>first.
     bind (subscript first (KStr (asc ''description''))) (\<lambda>description.
     bind (subscript weather (KStr (asc ''main''))) (\<lambda>main_again.
     bind (get_method main_again (asc ''humidity'') PNone) (\<lambda>humidity.
     bind (get_method weather (asc ''wind'') (PDict [])) (\<lambda>wind.
     bind (get_method wind (asc ''speed'') PNone) (\<lambda>wind_speed.
     bind (py_str env name) (\<lambda>name_text.
     bind (format_1f temp) (\<lambda>temp_text.
     bind (py_str env description) (\<lambda>description_text.
     bind (optional_part env lit_humidity_word humidity (asc ''%'')) (\<lambda>humidity_part.
     bind (optional_part env lit_wind_word wind_speed lit_metres_per_second) (\<lambda>wind_part.
     Inr (join (asc '', '')
            ([lit_current_weather_in @ name_text @ asc '': '' @ temp_text
                @ lit_degrees_comma @ description_text]
             @ humidity_part @ wind_part)
          @ asc ''.''))))))))))))))))"

text \<open>
  Line 113, the sentence for an error record, is outside the \<open>try\<close> block: an
  exception of its replacement field propagates.
\<close>

definition get_weather_for_location ::
  "interp \<Rightarrow> (pystr \<Rightarrow> pyval) \<Rightarrow> pystr \<Rightarrow> pystr list \<times> (pyexn + pystr)" where
  "get_weather_for_location env get_weather_by_city city =
     (let city_norm = normalize_city city;
          weather = get_weather_by_city city_norm
      in ([city_norm],
          if dict_has weather (asc ''error'') then
            bind (subscript weather (KStr (asc ''error''))) (\<lambda>err.
            bind (py_str env err) (\<lambda>err_text.
            Inr (lit_weather_failed @ city_norm @ asc '': '' @ err_text)))
          else
            (case weather_summary env weather of
               Inr sentence \<Rightarrow> Inr sentence
             | Inl e \<Rightarrow>
                 Inr (lit_weather_unexpected @ city_norm @ asc '': '' @ exn_text env e))))"

text \<open>Lines 180 to 185.\<close>

definition day_label :: "int \<Rightarrow> pyexn + pystr" where
  "day_label day_offset =
     (if day_offset = 0 then Inr lit_today
      else if day_offset = 1 then Inr lit_tomorrow
      else bind (int_str day_offset) (\<lambda>shown.
           Inr (lit_in_days_head @ shown @ lit_in_days_tail)))"

text \<open>Lines 189 to 192: the temperature part of the sentence, if any.\<close>

definition temperature_parts :: "pyval \<Rightarrow> pyval \<Rightarrow> pyval \<Rightarrow> pyexn + pystr list" where
  "temperature_parts temp_min temp_max temp_day =
     (if temp_min \<noteq> PNone \<and> temp_max \<noteq> PNone then
        bind (format_1f temp_min) (\<lambda>lo.
        bind (format_1f temp_max) (\<lambda>hi.
        Inr [lit_temperature_from @ lo @ lit_degrees_to @ hi @ lit_degrees]))
      else if temp_day \<noteq> PNone then
        bind (format_1f temp_day) (\<lambda>around.
        Inr [lit_temperature_about @ around @ lit_degrees])
      else Inr [])"

text \<open>Lines 169 to 199: the sentence for the selected entry \<open>item\<close>.\<close>

definition forecast_sentence :: "interp \<Rightarrow> pystr \<Rightarrow> int \<Rightarrow> pyval \<Rightarrow> pyexn + pystr" where
  "forecast_sentence env city_norm day_offset item =
     bind (get_method item (asc ''temp'') PNone) (\<lambda>temp.
     let temp_block = py_or temp (PDict []) in
     bind (get_method temp_block (asc ''min'') PNone) (\<lambda>temp_min.
     bind (get_method temp_block (asc ''max'') PNone) (\<lambda>temp_max.
     bind (get_method temp_block (asc ''day'') PNone) (\<lambda>temp_day.
     bind (get_method item (asc ''weather'') PNone) (\<lambda>weather.
     let weather_list = py_or weather (PList []) in
     bind (if truthy weather_list
           then bind (subscript weather_list (KInt 0)) (\<lambda>first.
                get_method first (asc ''description'') PNone)
           else Inr (PStr lit_no_description)) (\<lambda>description.
     bind (get_method item (asc ''humidity'') PNone) (\<lambda>humidity.
     bind (get_method item (asc ''wind_speed'') PNone) (\<lambda>wind_speed.
     bind (day_label day_offset) (\<lambda>label.
     bind (py_str env description) (\<lambda>description_text.
     bind (temperature_parts temp_min temp_max temp_day) (\<lambda>temperature.
     bind (optional_part env lit_humidity_word humidity (asc ''%'')) (\<lambda>humidity_part.
     bind (optional_part env lit_wind_word wind_speed lit_metres_per_second) (\<lambda>wind_part.
     Inr (join (asc '', '')
            ([lit_forecast_for @ city_norm @ lit_on_day @ label @ asc '': ''
                @ description_text]
             @ temperature @ humidity_part @ wind_part)
          @ lit_attribution))))))))))))))"

text \<open>The \<open>try\<close> block of \<open>get_forecast_for_location\<close> (lines 157 to 199).\<close>

definition daily_forecast :: "interp \<Rightarrow> pystr \<Rightarrow> int \<Rightarrow> pyval \<Rightarrow> pyexn + pystr" where
  "daily_forecast env city_norm day_offset daily_data =
     bind (get_method daily_data (asc ''daily'') PNone) (\<lambda>daily_list.
     if \<not> truthy daily_list then Inr (lit_forecast_unexpected @ city_norm @ asc ''.'')
     else
       bind (py_len daily_list) (\<lambda>n.
       if n \<le> day_offset then
         bind (int_str n) (\<lambda>length_text.
         bind (int_str day_offset) (\<lambda>offset_text.
         Inr (lit_only_days_head @ length_text @ lit_only_days_tail
              @ lit_offset_equals @ offset_text @ lit_out_of_range)))
       else
         bind (subscript daily_list (KInt day_offset)) (\<lambda>item.
         forecast_sentence env city_norm day_offset item)))"

text \<open>
  Line 154, the sentence for an error record, is outside the \<open>try\<close> block, as line
  113 is.
\<close>

definition get_forecast_for_location ::
  "interp \<Rightarrow> (pystr \<Rightarrow> pyval) \<Rightarrow> pystr \<Rightarrow> int \<Rightarrow> pystr list \<times> (pyexn + pystr)" where
  "get_forecast_for_location env get_daily_forecast_by_city city day_offset =
     (let city_norm = normalize_city city
      in if day_offset < 0 then ([], Inr lit_offset_negative)
         else
           (let daily_data = get_daily_forecast_by_city city_norm
            in ([city_norm],
                if dict_has daily_data (asc ''error'') then
                  bind (subscript daily_data (KStr (asc ''error''))) (\<lambda>err.
                  bind (py_str env err) (\<lambda>err_text.
                  Inr (lit_forecast_failed @ city_norm @ asc '': '' @ err_text)))
                else
                  (case daily_forecast env city_norm day_offset daily_data of
                     Inr sentence \<Rightarrow> Inr sentence
                   | Inl e \<Rightarrow>
                       Inr (lit_processing_failed @ city_norm @ asc '': ''
                            @ exn_text env e)))))"

definition get_user_location :: "ToolRuntime \<Rightarrow> pystr" where
  "get_user_location runtime = default_city (runtime_context runtime)"

text \<open>
  \<open>get_current_time\<close> reads the host clock with \<open>datetime.now()\<close>: a naive local
  date and time, here the argument \<open>now\<close>. \<open>isoformat\<close> prints the microseconds only
  when they are not zero; \<open>strftime\<close> is for the format \<open>%d.%m.%Y %H:%M:%S\<close>, with
  the year in four digits as the library documents it (some C libraries print a year
  below 1000 without the leading zeros).
\<close>

record datetime =
  year :: nat
  month :: nat
  day :: nat
  hour :: nat
  minute :: nat
  second :: nat
  microsecond :: nat

definition zero_pad :: "nat \<Rightarrow> nat \<Rightarrow> pystr" where
  "zero_pad width n = replicate (width - length (nat_digits n)) 48 @ nat_digits n"

definition isoformat :: "datetime \<Rightarrow> pystr" where
  "isoformat d =
     zero_pad 4 (year d) @ asc ''-'' @ zero_pad 2 (month d) @ asc ''-'' @ zero_pad 2 (day d)
     @ asc ''T'' @ zero_pad 2 (hour d) @ asc '':'' @ zero_pad 2 (minute d) @ asc '':''
     @ zero_pad 2 (second d)
     @ (if microsecond d = 0 then [] else asc ''.'' @ zero_pad 6 (microsecond d))"

definition strftime :: "datetime \<Rightarrow> pystr" where
  "strftime d =
     zero_pad 2 (day d) @ asc ''.'' @ zero_pad 2 (month d) @ asc ''.'' @ zero_pad 4 (year d)
     @ asc '' '' @ zero_pad 2 (hour d) @ asc '':'' @ zero_pad 2 (minute d) @ asc '':''
     @ zero_pad 2 (second d)"

definition get_current_time :: "datetime \<Rightarrow> ToolRuntime \<Rightarrow> pystr option \<Rightarrow> pystr" where
  "get_current_time now runtime timezone =
     (let iso_str = isoformat (now\<lparr>microsecond := 0\<rparr>);
          human = strftime now
      in lit_local_time_head @ human @ lit_iso_open @ iso_str @ asc '')'')"

subsection \<open>Daily entries\<close>

text \<open>
  The entries of a daily list, as the provider's data is described: a record whose
  \<open>temp\<close> is absent, empty or a record in which \<open>min\<close>, \<open>max\<close> and \<open>day\<close> are
  each absent, \<open>None\<close> or a number; whose \<open>weather\<close> is absent, empty or a list
  that starts with a record, the \<open>description\<close> of which is absent or a plain value;
  and whose \<open>humidity\<close> and \<open>wind_speed\<close> are absent or plain values. A plain value
  is \<open>None\<close>, a \<open>bool\<close>, a \<open>float\<close>, a \<open>str\<close>, or an \<open>int\<close> within the digit
  limit of \<open>int_str\<close>. These are the inputs of the theorem on the day label; the tool
  itself accepts any value.
\<close>

fun is_number :: "pyval \<Rightarrow> bool" where
  "is_number (PFloat x) = True"
| "is_number (PInt i) = (float_of_int i \<noteq> None)"
| "is_number v = False"

fun plain :: "pyval \<Rightarrow> bool" where
  "plain (PInt i) = (\<bar>i\<bar> < 10 ^ max_str_digits)"
| "plain (PList xs) = False"
| "plain (PDict kvs) = False"
| "plain v = True"

text \<open>\<open>kvs.get(key)\<close> on the items of a dict.\<close>

definition field :: "(pystr \<times> pyval) list \<Rightarrow> pystr \<Rightarrow> pyval" where
  "field kvs key = (case map_of kvs key of Some v \<Rightarrow> v | None \<Rightarrow> PNone)"

definition optional_number :: "(pystr \<times> pyval) list \<Rightarrow> pystr \<Rightarrow> bool" where
  "optional_number kvs key = (field kvs key = PNone \<or> is_number (field kvs key))"

fun temperatures_ok :: "pyval \<Rightarrow> bool" where
  "temperatures_ok (PDict kvs) =
     (optional_number kvs (asc ''min'') \<and> optional_number kvs (asc ''max'')
      \<and> optional_number kvs (asc ''day''))"
| "temperatures_ok v = (\<not> truthy v)"

fun conditions_ok :: "pyval \<Rightarrow> bool" where
  "conditions_ok (PList (PDict kvs # rest)) = plain (field kvs (asc ''description''))"
| "conditions_ok v = (\<not> truthy v)"

fun daily_entry_ok :: "pyval \<Rightarrow> bool" where
  "daily_entry_ok (PDict kvs) =
     (temperatures_ok (field kvs (asc ''temp'')) \<and> conditions_ok (field kvs (asc ''weather''))
      \<and> plain (field kvs (asc ''humidity'')) \<and> plain (field kvs (asc ''wind_speed'')))"
| "daily_entry_ok v = False"

section \<open>Properties of the HTTP retry client\<close>

lemmas float_eval =
  float_lit_def float_of_int_def round_to_double_def bit_length.simps rhe_div_def Let_def

lemma float_one: "float_lit 1 0 = Finite False 4503599627370496 (- 52)"
  by (simp add: float_eval)

lemma float_two: "float_lit 2 0 = Finite False 4503599627370496 (- 51)"
  by (simp add: float_eval)

lemma float_1e9: "float_lit 1 9 = Finite False 8388608000000000 (- 23)"
  by (simp add: float_eval)

lemma delay_first: "backoff_delay (float_lit 1 0) 1 = Inr (float_lit 1 0)"
  by (simp add: backoff_delay_def float_one) (simp add: float_eval)

lemma delay_second: "backoff_delay (float_lit 1 0) 2 = Inr (float_lit 2 0)"
  by (simp add: backoff_delay_def float_one float_two) (simp add: float_eval)

lemma sleep_first: "time_sleep (float_lit 1 0) = Inr ()"
  by (simp add: time_sleep_def float_one float_1e9) (simp add: float_eval ceil_scaled_def)

lemma sleep_second: "time_sleep (float_lit 2 0) = Inr ()"
  by (simp add: time_sleep_def float_two float_1e9) (simp add: float_eval ceil_scaled_def)

lemma default_delays_accepted: "delays_accepted (float_lit 1 0) 2"
  by (simp add: delays_accepted_def delay_first sleep_first)

lemma accepted_delay:
  assumes "delays_accepted b retries" and "1 \<le> a" and "a < retries"
  obtains d where "backoff_delay b a = Inr d" and "time_sleep d = Inr ()"
proof -
  from assms(2,3) have "a \<in> set [1..retries - 1]" by simp
  with assms(1) have "case backoff_delay b a of Inl e \<Rightarrow> False | Inr d \<Rightarrow> time_sleep d = Inr ()"
    unfolding delays_accepted_def list_all_iff by blast
  then show thesis
    using that by (cases "backoff_delay b a") auto
qed

text \<open>
  When every GET fails with a caught error, the loop from iteration \<open>attempt\<close> on
  either makes all the remaining attempts and returns \<open>None\<close>, or stops earlier with
  an exception (raised by the delay computation or by \<open>time.sleep\<close>); it never returns
  a response.
\<close>

lemma attempts_fail_outcome:
  assumes "\<forall>k. \<exists>e. world k = Raised e \<and> caught e" and "1 \<le> attempt"
  shows "(fst (attempts world url retries b t attempt s) = Inr None
            \<and> length (sent (snd (attempts world url retries b t attempt s)))
                = length (sent s) + nat (retries + 1 - attempt))
         \<or> ((\<exists>e. fst (attempts world url retries b t attempt s) = Inl e)
            \<and> length (sent (snd (attempts world url retries b t attempt s)))
                < length (sent s) + nat (retries + 1 - attempt))"
  using assms
proof (induction world url retries b t attempt s rule: attempts.induct)
  case (1 world url retries b t attempt s)
  show ?case
  proof (cases "retries < attempt")
    case True
    then show ?thesis by (simp add: attempts.simps)
  next
    case False
    from "1.prems"(1) obtain exc where exc: "world (length (sent s)) = Raised exc" "caught exc"
      by blast
    show ?thesis
    proof (cases "attempt = retries")
      case True
      with exc show ?thesis by (subst (1 2 3 4) attempts.simps) simp
    next
      case ne: False
      with False have lt: "attempt < retries" by simp
      show ?thesis
      proof (cases "backoff_delay b attempt")
        case (Inl e)
        with exc ne False lt show ?thesis by (subst (1 2 3 4) attempts.simps) simp
      next
        case (Inr d)
        show ?thesis
        proof (cases "time_sleep d")
          case (Inl e)
          with exc ne False lt Inr show ?thesis by (subst (1 2 3 4) attempts.simps) simp
        next
          case slept: (Inr u)
          let ?s = "s\<lparr>sent := sent s @ [(url, t)], slept := slept s @ [d]\<rparr>"
          have step: "attempts world url retries b t attempt s
              = attempts world url retries b t (attempt + 1) ?s"
            using exc ne False Inr slept by (subst attempts.simps) simp
          have nn: "\<not> \<not> caught exc" and pos: "1 \<le> attempt + 1"
            using exc(2) "1.prems"(2) by simp_all
          note ih = "1.IH" [OF False exc(1) nn ne Inr slept "1.prems"(1) pos]
          have eq: "length (sent ?s) + nat (retries + 1 - (attempt + 1))
              = length (sent s) + nat (retries + 1 - attempt)"
            using lt by simp
          from ih show ?thesis
            unfolding step eq .
        qed
      qed
    qed
  qed
qed

lemma attempts_all_fail:
  assumes fail: "\<forall>k. \<exists>e. world k = Raised e \<and> caught e"
    and ok: "delays_accepted b retries"
    and pos: "1 \<le> attempt"
  shows "\<exists>s'. attempts world url retries b t attempt s = (Inr None, s')
           \<and> length (sent s') = length (sent s) + nat (retries + 1 - attempt)
           \<and> length (slept s') = length (slept s) + nat (retries - attempt)"
  using fail ok pos
proof (induction world url retries b t attempt s rule: attempts.induct)
  case (1 world url retries b t attempt s)
  show ?case
  proof (cases "retries < attempt")
    case True
    then show ?thesis by (simp add: attempts.simps)
  next
    case False
    from "1.prems"(1) obtain exc where exc: "world (length (sent s)) = Raised exc" "caught exc"
      by blast
    show ?thesis
    proof (cases "attempt = retries")
      case True
      with exc show ?thesis by (subst attempts.simps) simp
    next
      case ne: False
      with False have lt: "attempt < retries" by simp
      from accepted_delay [OF "1.prems"(2) "1.prems"(3) lt]
      obtain d where d: "backoff_delay b attempt = Inr d" "time_sleep d = Inr ()" by blast
      let ?s = "s\<lparr>sent := sent s @ [(url, t)], slept := slept s @ [d]\<rparr>"
      from "1.IH" [OF False exc(1) _ ne d(1) d(2) "1.prems"(1) "1.prems"(2)] exc(2) "1.prems"(3)
      obtain s' where s': "attempts world url retries b t (attempt + 1) ?s = (Inr None, s')"
        "length (sent s') = length (sent ?s) + nat (retries + 1 - (attempt + 1))"
        "length (slept s') = length (slept ?s) + nat (retries - (attempt + 1))"
        by auto
      have "attempts world url retries b t attempt s = (Inr None, s')"
        using exc ne False d s'(1) by (subst attempts.simps) simp
      moreover have "length (sent s') = length (sent s) + nat (retries + 1 - attempt)"
        using s'(2) lt by simp
      moreover have "length (slept s') = length (slept s) + nat (retries - attempt)"
        using s'(3) lt by simp
      ultimately show ?thesis by blast
    qed
  qed
qed

text \<open>
  Claim C1. Called with \<open>retries = 3\<close> and \<open>backoff_seconds = 1.0\<close>, when the first two
  GET attempts raise a connection error and the third gets a response, the client sleeps
  \<open>1.0\<close> seconds after the first failure and \<open>2.0\<close> after the second, sends three
  requests, and returns the third attempt's response without sleeping again, whatever its
  status code is.
\<close>

theorem get_with_retries_third_attempt:
  assumes "world 0 = Raised ConnectionError" and "world 1 = Raised ConnectionError"
    and "world 2 = Responded resp"
  shows "get_with_retries world url 3 (float_lit 1 0) timeout idle =
    (Inr (Some resp),
     \<lparr>sent = [(url, timeout), (url, timeout), (url, timeout)],
      slept = [float_lit 1 0, float_lit 2 0]\<rparr>)"
proof -
  let ?b = "float_lit 1 0"
  let ?s1 = "\<lparr>sent = [(url, timeout)], slept = [?b]\<rparr>"
  let ?s2 = "\<lparr>sent = [(url, timeout), (url, timeout)], slept = [?b, float_lit 2 0]\<rparr>"
  have third: "attempts world url 3 ?b timeout 3 ?s2 =
      (Inr (Some resp), ?s2\<lparr>sent := sent ?s2 @ [(url, timeout)]\<rparr>)"
    using assms(3) by (subst attempts.simps) (simp add: numeral_2_eq_2)
  have second: "attempts world url 3 ?b timeout 2 ?s1 = attempts world url 3 ?b timeout 3 ?s2"
    using assms(2) by (subst attempts.simps) (simp add: delay_second sleep_second)
  have first: "attempts world url 3 ?b timeout 1 idle = attempts world url 3 ?b timeout 2 ?s1"
    using assms(1) by (subst attempts.simps) (simp add: delay_first sleep_first idle_def)
  show ?thesis
    unfolding get_with_retries_def first second third by simp
qed

theorem get_with_retries_third_attempt_witness:
  "get_with_retries
     (\<lambda>k. if k < 2 then Raised ConnectionError
          else Responded \<lparr>status_code = 503, text_body = asc ''busy''\<rparr>)
     (asc ''http://api.example/weather'') 3 (float_lit 1 0) (float_lit 1 1) idle =
    (Inr (Some \<lparr>status_code = 503, text_body = asc ''busy''\<rparr>),
     \<lparr>sent = replicate 3 (asc ''http://api.example/weather'', float_lit 1 1),
      slept = [float_lit 1 0, float_lit 2 0]\<rparr>)"
  using get_with_retries_third_attempt
    [of "\<lambda>k. if k < 2 then Raised ConnectionError
              else Responded \<lparr>status_code = 503, text_body = asc ''busy''\<rparr>"
        "\<lparr>status_code = 503, text_body = asc ''busy''\<rparr>"
        "asc ''http://api.example/weather''" "float_lit 1 1"]
  by (simp add: numeral_3_eq_3)

text \<open>
  Claim C2. When every GET attempt raises a connection error or a timeout, a call with
  \<open>retries = 2\<close> (and the default \<open>backoff_seconds = 1.0\<close>) sends two requests,
  sleeps once and returns \<open>None\<close>: it neither raises nor returns a response. In
  general, for any \<open>retries\<close> and \<open>backoff_seconds\<close>, such a call never returns a
  response; it returns \<open>None\<close> whenever it has made all \<open>retries\<close> attempts; and it
  makes them all, returning \<open>None\<close>, whenever \<open>time.sleep\<close> accepts the delays.
\<close>

theorem get_with_retries_all_attempts_fail:
  assumes "\<forall>k. \<exists>e. world k = Raised e \<and> caught e"
  shows "get_with_retries world url 2 (float_lit 1 0) timeout idle =
           (Inr None, \<lparr>sent = [(url, timeout), (url, timeout)], slept = [float_lit 1 0]\<rparr>)
         \<and> (\<forall>resp. fst (get_with_retries world url retries b timeout s) \<noteq> Inr (Some resp))
         \<and> (length (sent (snd (get_with_retries world url retries b timeout s)))
               = length (sent s) + nat retries
             \<longrightarrow> fst (get_with_retries world url retries b timeout s) = Inr None)
         \<and> (delays_accepted b retries
             \<longrightarrow> fst (get_with_retries world url retries b timeout s) = Inr None
               \<and> length (sent (snd (get_with_retries world url retries b timeout s)))
                   = length (sent s) + nat retries)"
proof (intro conjI)
  from assms obtain e0 e1
    where e: "world 0 = Raised e0" "caught e0" "world 1 = Raised e1" "caught e1"
    by metis
  let ?b = "float_lit 1 0"
  let ?s1 = "\<lparr>sent = [(url, timeout)], slept = [?b]\<rparr>"
  have second: "attempts world url 2 ?b timeout 2 ?s1 =
      (Inr None, ?s1\<lparr>sent := sent ?s1 @ [(url, timeout)]\<rparr>)"
    using e by (subst attempts.simps) simp
  have first: "attempts world url 2 ?b timeout 1 idle = attempts world url 2 ?b timeout 2 ?s1"
    using e by (subst attempts.simps) (simp add: delay_first sleep_first idle_def)
  show "get_with_retries world url 2 ?b timeout idle =
      (Inr None, \<lparr>sent = [(url, timeout), (url, timeout)], slept = [?b]\<rparr>)"
    unfolding get_with_retries_def first second by simp
next
  note out = attempts_fail_outcome [OF assms, of 1 url retries b timeout s]
  show "\<forall>resp. fst (get_with_retries world url retries b timeout s) \<noteq> Inr (Some resp)"
    using out unfolding get_with_retries_def by auto
  show "length (sent (snd (get_with_retries world url retries b timeout s)))
          = length (sent s) + nat retries
        \<longrightarrow> fst (get_with_retries world url retries b timeout s) = Inr None"
    using out unfolding get_with_retries_def by auto
next
  show "delays_accepted b retries \<longrightarrow>
      fst (get_with_retries world url retries b timeout s) = Inr None
      \<and> length (sent (snd (get_with_retries world url retries b timeout s)))
          = length (sent s) + nat retries"
  proof
    assume ok: "delays_accepted b retries"
    from attempts_all_fail [OF assms ok, of 1 url timeout s]
    show "fst (get_with_retries world url retries b timeout s) = Inr None
      \<and> length (sent (snd (get_with_retries world url retries b timeout s)))
          = length (sent s) + nat retries"
      unfolding get_with_retries_def by auto
  qed
qed

theorem get_with_retries_all_attempts_fail_witness:
  "get_with_retries (\<lambda>k. Raised Timeout) (asc ''http://api.example/weather'') 2
       (float_lit 1 0) (float_lit 1 1) idle =
     (Inr None,
      \<lparr>sent = replicate 2 (asc ''http://api.example/weather'', float_lit 1 1),
       slept = [float_lit 1 0]\<rparr>)
   \<and> delays_accepted (float_lit 1 0) 2
   \<and> fst (get_with_retries (\<lambda>k. Raised Timeout) (asc ''http://api.example/weather'') 2
       (float_lit 1 0) (float_lit 1 1) idle) = Inr None
   \<and> length (sent (snd (get_with_retries (\<lambda>k. Raised Timeout)
       (asc ''http://api.example/weather'') 2 (float_lit 1 0) (float_lit 1 1) idle))) = 2"
  using get_with_retries_all_attempts_fail
    [of "\<lambda>k. Raised Timeout" "asc ''http://api.example/weather''" "float_lit 1 1"
        2 "float_lit 1 0" idle]
    default_delays_accepted
  by (simp add: numeral_2_eq_2 idle_def)

text \<open>
  Claim C10. For every \<open>retries \<le> 0\<close> the loop body never runs: no GET request is
  sent, nothing is slept, and \<open>None\<close> is returned at once.
\<close>

theorem get_with_retries_no_attempts:
  "retries \<le> 0 \<Longrightarrow>
     get_with_retries world url retries backoff_seconds timeout s = (Inr None, s)"
  by (simp add: get_with_retries_def attempts.simps)

theorem get_with_retries_no_attempts_witness:
  "(0::int) \<le> 0
   \<and> get_with_retries (\<lambda>k. Responded \<lparr>status_code = 200, text_body = []\<rparr>)
        (asc ''http://api.example/weather'') 0 (float_lit 1 0) (float_lit 1 1) idle
      = (Inr None, idle)"
  using get_with_retries_no_attempts
    [of 0 "\<lambda>k. Responded \<lparr>status_code = 200, text_body = []\<rparr>"
        "asc ''http://api.example/weather''" "float_lit 1 0" "float_lit 1 1" idle]
  by simp

section \<open>Properties of the tools\<close>

subsection \<open>Evaluating the number formats\<close>

lemma temp_text: "float_format_1f (float_lit 56 (- 1)) = asc ''5.6''"
proof -
  have "float_lit 56 (- 1) = Finite False 6305039478318694 (- 50)"
    by (simp add: float_eval)
  then show ?thesis
    by (simp add: float_format_1f_def rhe_div_def Let_def nat_digits.simps asc_def)
qed

lemma wind_text: "float_repr (float_lit 32 (- 1)) = asc ''3.2''"
proof -
  have "float_lit 32 (- 1) = Finite False 7205759403792794 (- 51)"
    by (simp add: float_eval)
  then show ?thesis
    by (simp add: float_repr_def shortest_digits.simps digits_at_def scaled_def reads_back_def
        dec_exponent_def strip_zeros_def round_to_double_def bit_length.simps rhe_div_def
        Let_def nat_digits.simps asc_def)
qed

text \<open>Integers of everyday size are within the digit limit of \<open>int_str\<close>.\<close>

lemma below_limit:
  assumes "\<bar>i :: int\<bar> < 10000"
  shows "\<bar>i\<bar> < 10 ^ max_str_digits"
proof -
  have "(10::int) ^ 4 \<le> 10 ^ max_str_digits"
    by (rule power_increasing) (simp_all add: max_str_digits_def)
  with assms show ?thesis by simp
qed

lemma int_str_within: "\<bar>i\<bar> < 10 ^ max_str_digits \<Longrightarrow> int_str i = Inr (int_digits i)"
  by (simp add: int_str_def)

lemma int_str_beyond:
  "10 ^ max_str_digits \<le> \<bar>i\<bar> \<Longrightarrow> int_str i = Inl (ValueError (PInt i))"
  by (simp add: int_str_def)

lemma int_str_small: "\<bar>i\<bar> < 10000 \<Longrightarrow> int_str i = Inr (int_digits i)"
  using below_limit int_str_within by blast

lemma humidity_text: "int_str 80 = Inr (asc ''80'')"
  by (simp add: int_str_small int_digits_def nat_digits.simps asc_def)

subsection \<open>Strings\<close>



lemma dropWhile_all: "\<forall>x\<in>set xs. P x \<Longrightarrow> dropWhile P (xs @ ys) = dropWhile P ys"
  by (induction xs) auto

text \<open>
  \<open>strip\<close> returns the part between the leading and the trailing whitespace, and the
  empty string when there is nothing else.
\<close>

lemma strip_core:
  assumes "list_all is_space lead" and "list_all is_space trail" and "core \<noteq> []"
    and "\<not> is_space (hd core)" and "\<not> is_space (last core)"
  shows "strip (lead @ core @ trail) = core"
proof -
  from assms(3,4) have front: "dropWhile is_space (core @ trail) = core @ trail"
    by (cases core) auto
  from assms(3,5) have rear: "dropWhile is_space (rev core) = rev core"
    by (cases "rev core") (auto simp: hd_rev [symmetric])
  have "dropWhile is_space (lead @ core @ trail) = core @ trail"
    using assms(1) front by (simp add: dropWhile_all list_all_iff)
  moreover have "dropWhile is_space (rev (core @ trail)) = rev core"
    using assms(2) rear by (simp add: dropWhile_all list_all_iff)
  ultimately show ?thesis
    by (simp add: strip_def)
qed

lemma strip_blank: "list_all is_space s \<Longrightarrow> strip s = []"
proof -
  assume "list_all is_space s"
  then have blank: "dropWhile is_space s = []"
    by (simp add: list_all_iff)
  show ?thesis
    unfolding strip_def blank by simp
qed

subsection \<open>The current-weather tool\<close>

lemma subscript_present:
  "dict_has w key \<Longrightarrow> \<exists>v. subscript w (KStr key) = Inr v"
  by (cases w) auto



lemma weather_query: "fst (get_weather_for_location env provider city) = [normalize_city city]"
  by (simp add: get_weather_for_location_def Let_def)

text \<open>
  Claim C3. When the provider returns the record with name Moskva (in Cyrillic), \<open>main\<close>
  with \<open>temp\<close> 5.6 and \<open>humidity\<close> 80, one \<open>weather\<close> entry with the description
  "oblachno" (in Cyrillic), and \<open>wind\<close> with \<open>speed\<close> 3.2, the tool returns exactly the
  sentence of the specification: the temperature with one decimal place, the humidity and
  wind parts, and a final full stop. The expected string below is the specification's,
  code point by code point.
\<close>

theorem get_weather_for_location_moscow:
  "snd (get_weather_for_location env
     (\<lambda>c. PDict
        [(asc ''name'', PStr [1052, 1086, 1089, 1082, 1074, 1072]),
         (asc ''main'', PDict [(asc ''temp'', PFloat (float_lit 56 (- 1))),
                               (asc ''humidity'', PInt 80)]),
         (asc ''weather'', PList [PDict [(asc ''description'', PStr [1086, 1073, 1083, 1072, 1095, 1085, 1086])]]),
         (asc ''wind'', PDict [(asc ''speed'', PFloat (float_lit 32 (- 1)))])])
     city) =
   Inr [1058, 1077, 1082, 1091, 1097, 1072, 1103, 32, 1087, 1086, 1075, 1086, 1076, 1072,
        32, 1074, 32, 1052, 1086, 1089, 1082, 1074, 1072, 58, 32, 53, 46, 54, 176, 67, 44,
        32, 1086, 1073, 1083, 1072, 1095, 1085, 1086, 44, 32, 1074, 1083, 1072, 1078, 1085,
        1086, 1089, 1090, 1100, 32, 56, 48, 37, 44, 32, 1074, 1077, 1090, 1077, 1088, 32,
        51, 46, 50, 32, 1084, 47, 1089, 46]"
  by (simp add: get_weather_for_location_def weather_summary_def optional_part_def Let_def
      temp_text wind_text humidity_text py_str_def at_index_def
      lit_current_weather_in_def lit_degrees_comma_def lit_humidity_word_def lit_wind_word_def
      lit_metres_per_second_def asc_def)

theorem get_weather_for_location_moscow_witness:
  "snd (get_weather_for_location sample_interp
     (\<lambda>c. if c = [1052, 1086, 1089, 1082, 1074, 1072] then PDict
        [(asc ''name'', PStr [1052, 1086, 1089, 1082, 1074, 1072]),
         (asc ''main'', PDict [(asc ''temp'', PFloat (float_lit 56 (- 1))),
                               (asc ''humidity'', PInt 80)]),
         (asc ''weather'', PList [PDict [(asc ''description'', PStr [1086, 1073, 1083, 1072, 1095, 1085, 1086])]]),
         (asc ''wind'', PDict [(asc ''speed'', PFloat (float_lit 32 (- 1)))])]
        else PNone)
     [1052, 1086, 1089, 1082, 1074, 1072]) =
   Inr [1058, 1077, 1082, 1091, 1097, 1072, 1103, 32, 1087, 1086, 1075, 1086, 1076, 1072,
        32, 1074, 32, 1052, 1086, 1089, 1082, 1074, 1072, 58, 32, 53, 46, 54, 176, 67, 44,
        32, 1086, 1073, 1083, 1072, 1095, 1085, 1086, 44, 32, 1074, 1083, 1072, 1078, 1085,
        1086, 1089, 1090, 1100, 32, 56, 48, 37, 44, 32, 1074, 1077, 1090, 1077, 1088, 32,
        51, 46, 50, 32, 1084, 47, 1089, 46]"
proof -
  have kept: "normalize_city [1052, 1086, 1089, 1082, 1074, 1072] = [1052, 1086, 1089, 1082, 1074, 1072]"
    by (simp add: normalize_city_def strip_def is_space_def)
  have "get_weather_for_location sample_interp
     (\<lambda>c. if c = [1052, 1086, 1089, 1082, 1074, 1072] then PDict
        [(asc ''name'', PStr [1052, 1086, 1089, 1082, 1074, 1072]),
         (asc ''main'', PDict [(asc ''temp'', PFloat (float_lit 56 (- 1))),
                               (asc ''humidity'', PInt 80)]),
         (asc ''weather'', PList [PDict [(asc ''description'', PStr [1086, 1073, 1083, 1072, 1095, 1085, 1086])]]),
         (asc ''wind'', PDict [(asc ''speed'', PFloat (float_lit 32 (- 1)))])]
        else PNone)
     [1052, 1086, 1089, 1082, 1074, 1072]
   = get_weather_for_location sample_interp
     (\<lambda>c. PDict
        [(asc ''name'', PStr [1052, 1086, 1089, 1082, 1074, 1072]),
         (asc ''main'', PDict [(asc ''temp'', PFloat (float_lit 56 (- 1))),
                               (asc ''humidity'', PInt 80)]),
         (asc ''weather'', PList [PDict [(asc ''description'', PStr [1086, 1073, 1083, 1072, 1095, 1085, 1086])]]),
         (asc ''wind'', PDict [(asc ''speed'', PFloat (float_lit 32 (- 1)))])])
     [1052, 1086, 1089, 1082, 1074, 1072]"
    by (simp add: get_weather_for_location_def Let_def kept)
  then show ?thesis
    using get_weather_for_location_moscow [of sample_interp "[1052, 1086, 1089, 1082, 1074, 1072]"]
    by simp
qed



text \<open>
  Claim C5 (as amended). The tool queries the provider once, with the normalized city:
  for a city that is a non-empty core between leading and trailing whitespace, with that
  core, the trimmed string; for the empty string and for a city of whitespace only, whose
  trimmed string is empty, with the placeholder literal of line 109. As stated, for every
  city with leading or trailing whitespace, the claim fails on a city of whitespace only.
\<close>

theorem get_weather_for_location_query:
  "(list_all is_space lead \<and> list_all is_space trail \<and> core \<noteq> []
      \<and> \<not> is_space (hd core) \<and> \<not> is_space (last core)
      \<longrightarrow> strip (lead @ core @ trail) = core
        \<and> fst (get_weather_for_location env provider (lead @ core @ trail)) = [core])
   \<and> (strip city \<noteq> []
      \<longrightarrow> fst (get_weather_for_location env provider city) = [strip city])
   \<and> (list_all is_space blank
      \<longrightarrow> fst (get_weather_for_location env provider blank) = [lit_unknown_city])
   \<and> fst (get_weather_for_location env provider []) = [lit_unknown_city]"
proof (intro conjI impI)
  assume parts: "list_all is_space lead \<and> list_all is_space trail \<and> core \<noteq> []
      \<and> \<not> is_space (hd core) \<and> \<not> is_space (last core)"
  then show trimmed: "strip (lead @ core @ trail) = core"
    using strip_core by blast
  from parts show "fst (get_weather_for_location env provider (lead @ core @ trail)) = [core]"
    unfolding weather_query normalize_city_def trimmed by simp
next
  assume "strip city \<noteq> []"
  then show "fst (get_weather_for_location env provider city) = [strip city]"
    unfolding weather_query normalize_city_def by simp
next
  assume "list_all is_space blank"
  then have "strip blank = []" by (rule strip_blank)
  then show "fst (get_weather_for_location env provider blank) = [lit_unknown_city]"
    unfolding weather_query normalize_city_def by simp
next
  have "strip [] = []" by (simp add: strip_def)
  then show "fst (get_weather_for_location env provider []) = [lit_unknown_city]"
    unfolding weather_query normalize_city_def by simp
qed

theorem get_weather_for_location_query_witness:
  "fst (get_weather_for_location sample_interp (\<lambda>c. PNone) (asc ''  Oslo,no '')) = [asc ''Oslo,no'']
   \<and> fst (get_weather_for_location sample_interp (\<lambda>c. PNone) (asc ''Oslo'')) = [asc ''Oslo'']
   \<and> fst (get_weather_for_location sample_interp (\<lambda>c. PNone) (asc ''   '')) = [lit_unknown_city]
   \<and> fst (get_weather_for_location sample_interp (\<lambda>c. PNone) []) = [lit_unknown_city]"
  using get_weather_for_location_query
    [of "asc ''  ''" "asc '' ''" "asc ''Oslo,no''" sample_interp "\<lambda>c. PNone" "asc ''Oslo''"
        "asc ''   ''"]
  by (simp add: asc_def is_space_def strip_def)

theorem get_weather_for_location_query_counterexample:
  "strip (asc '' '') = []
   \<and> fst (get_weather_for_location sample_interp (\<lambda>c. PNone) (asc '' '')) = [lit_unknown_city]
   \<and> fst (get_weather_for_location sample_interp (\<lambda>c. PNone) (asc '' ''))
       \<noteq> [strip (asc '' '')]"
  by (simp add: get_weather_for_location_def normalize_city_def Let_def strip_def is_space_def
      asc_def lit_unknown_city_def)

subsection \<open>The forecast tool\<close>

text \<open>
  Claim C6. For every negative \<open>day_offset\<close> the tool returns the fixed rejection
  sentence of line 150, and the list of provider calls is empty: the offset is rejected
  before the daily-forecast provider is called.
\<close>

theorem get_forecast_for_location_negative_offset:
  "day_offset < 0 \<Longrightarrow>
     get_forecast_for_location env provider city day_offset = ([], Inr lit_offset_negative)"
  by (simp add: get_forecast_for_location_def Let_def)

theorem get_forecast_for_location_negative_offset_witness:
  "(- 1 :: int) < 0
   \<and> get_forecast_for_location sample_interp (\<lambda>c. PDict [(asc ''daily'', PList [PDict []])])
        (asc ''Oslo'') (- 1) = ([], Inr lit_offset_negative)"
  using get_forecast_for_location_negative_offset
    [of "- 1" sample_interp "\<lambda>c. PDict [(asc ''daily'', PList [PDict []])]" "asc ''Oslo''"]
  by simp

subsection \<open>Well-formed daily entries give a forecast sentence\<close>

lemma join_head: "\<exists>rest. join sep (x # xs) = x @ rest"
  by (cases xs) auto

lemma bind_eq_Inr: "bind m f = Inr y \<longleftrightarrow> (\<exists>x. m = Inr x \<and> f x = Inr y)"
  by (cases m) auto

lemma number_formats:
  "v = PNone \<or> is_number v \<Longrightarrow> v \<noteq> PNone \<Longrightarrow> \<exists>s. format_1f v = Inr s"
  by (cases v) auto

lemma temperature_parts_ok:
  assumes "a = PNone \<or> is_number a" and "b = PNone \<or> is_number b"
    and "c = PNone \<or> is_number c"
  shows "\<exists>ps. temperature_parts a b c = Inr ps"
proof (cases "a \<noteq> PNone \<and> b \<noteq> PNone")
  case True
  with assms obtain lo hi where "format_1f a = Inr lo" "format_1f b = Inr hi"
    using number_formats by blast
  with True show ?thesis by (simp add: temperature_parts_def)
next
  case False
  show ?thesis
  proof (cases "c = PNone")
    case True
    with False show ?thesis by (auto simp: temperature_parts_def)
  next
    case ne: False
    with assms(3) obtain s where "format_1f c = Inr s"
      using number_formats by blast
    with False ne show ?thesis by (auto simp: temperature_parts_def)
  qed
qed

lemma temp_block_ok:
  assumes "temperatures_ok t"
  shows "\<exists>tb. py_or t (PDict []) = PDict tb \<and> optional_number tb (asc ''min'')
           \<and> optional_number tb (asc ''max'') \<and> optional_number tb (asc ''day'')"
proof (cases "truthy t")
  case True
  with assms obtain tb where "t = PDict tb"
    by (cases t) auto
  with assms True show ?thesis by (simp add: py_or_def)
next
  case False
  then show ?thesis by (simp add: py_or_def optional_number_def field_def)
qed

lemma description_ok:
  assumes "conditions_ok w"
  shows "\<exists>d. (if truthy (py_or w (PList []))
           then bind (subscript (py_or w (PList [])) (KInt 0)) (\<lambda>first.
                get_method first (asc ''description'') PNone)
           else Inr (PStr lit_no_description)) = Inr d \<and> plain d"
proof (cases "truthy w")
  case True
  with assms obtain kvs rest
    where "w = PList (PDict kvs # rest)" "plain (field kvs (asc ''description''))"
    by (induction w rule: conditions_ok.induct) auto
  then show ?thesis by (simp add: py_or_def at_index_def field_def)
next
  case False
  then show ?thesis by (simp add: py_or_def)
qed

lemma get_method_field: "get_method (PDict kvs) key PNone = Inr (field kvs key)"
  by (simp add: field_def)

lemma plain_str: "plain v \<Longrightarrow> \<exists>s. py_str env v = Inr s"
  by (cases v) (simp_all add: py_str_def int_str_within)

lemma optional_part_ok: "plain v \<Longrightarrow> \<exists>ps. optional_part env lead v trail = Inr ps"
  using plain_str [of v env] by (auto simp: optional_part_def)

text \<open>The label is the one of lines 180 to 185 whenever it is computed at all.\<close>

lemma day_label_Inr:
  assumes "day_label day_offset = Inr label"
  shows "label = (if day_offset = 0 then lit_today
                  else if day_offset = 1 then lit_tomorrow
                  else lit_in_days_head @ int_digits day_offset @ lit_in_days_tail)"
  using assms
  by (auto simp: day_label_def int_str_def bind_eq_Inr split: if_splits)

lemma day_label_within:
  assumes "\<bar>day_offset\<bar> < 10 ^ max_str_digits"
  shows "\<exists>label. day_label day_offset = Inr label"
  using assms by (simp add: day_label_def int_str_within)

lemma forecast_sentence_shape:
  assumes "forecast_sentence env city_norm day_offset item = Inr s"
  shows "\<exists>rest. s = lit_forecast_for @ city_norm @ lit_on_day
           @ (if day_offset = 0 then lit_today
              else if day_offset = 1 then lit_tomorrow
              else lit_in_days_head @ int_digits day_offset @ lit_in_days_tail)
           @ asc '': '' @ rest"
proof -
  from assms obtain label description_text more where
    label: "day_label day_offset = Inr label" and
    "s = join (asc '', '')
          ((lit_forecast_for @ city_norm @ lit_on_day @ label @ asc '': ''
             @ description_text) # more) @ lit_attribution"
    unfolding forecast_sentence_def Let_def bind_eq_Inr by auto
  moreover obtain rest where
    "join (asc '', '')
          ((lit_forecast_for @ city_norm @ lit_on_day @ label @ asc '': ''
             @ description_text) # more)
      = (lit_forecast_for @ city_norm @ lit_on_day @ label @ asc '': ''
             @ description_text) @ rest"
    using join_head by blast
  ultimately show ?thesis
    using day_label_Inr [OF label] by simp
qed

lemma forecast_sentence_returns:
  assumes "daily_entry_ok item" and "\<bar>day_offset\<bar> < 10 ^ max_str_digits"
  shows "\<exists>s. forecast_sentence env city_norm day_offset item = Inr s"
proof -
  from assms(1) obtain kvs where item: "item = PDict kvs"
    by (cases item) auto
  from assms(1) item have temps: "temperatures_ok (field kvs (asc ''temp''))"
    and cond: "conditions_ok (field kvs (asc ''weather''))"
    and humidity: "plain (field kvs (asc ''humidity''))"
    and wind: "plain (field kvs (asc ''wind_speed''))"
    by simp_all
  from temps obtain tb where tb: "py_or (field kvs (asc ''temp'')) (PDict []) = PDict tb"
      "optional_number tb (asc ''min'')" "optional_number tb (asc ''max'')"
      "optional_number tb (asc ''day'')"
    using temp_block_ok by blast
  from tb(2-4) obtain ps
    where ps: "temperature_parts (field tb (asc ''min'')) (field tb (asc ''max''))
                 (field tb (asc ''day'')) = Inr ps"
    using temperature_parts_ok unfolding optional_number_def by meson
  from description_ok [OF cond] obtain d
    where d: "(if truthy (py_or (field kvs (asc ''weather'')) (PList []))
           then bind (subscript (py_or (field kvs (asc ''weather'')) (PList [])) (KInt 0))
                  (\<lambda>first. get_method first (asc ''description'') PNone)
           else Inr (PStr lit_no_description)) = Inr d" and "plain d"
    by blast
  from \<open>plain d\<close> obtain description_text where dt: "py_str env d = Inr description_text"
    using plain_str by blast
  from day_label_within [OF assms(2)] obtain label
    where label: "day_label day_offset = Inr label" ..
  from optional_part_ok [OF humidity] obtain hp
    where hp: "optional_part env lit_humidity_word (field kvs (asc ''humidity'')) (asc ''%'')
      = Inr hp" ..
  from optional_part_ok [OF wind] obtain wp
    where wp: "optional_part env lit_wind_word (field kvs (asc ''wind_speed''))
      lit_metres_per_second = Inr wp" ..
  show ?thesis
    unfolding forecast_sentence_def item
    using tb(1) ps d dt label hp wp
    by (simp add: Let_def get_method_field del: get_method.simps)
qed

text \<open>
  Claim C7 (as amended). When the provider returns a record without an error field whose
  daily list is not empty, and \<open>day_offset\<close> is at least the length of the list and has
  at most 4300 decimal digits (the limit of the conversion of an \<open>int\<close> to a string),
  the tool returns the sentence of lines 163 and 164, which states the length and the
  offset, and does not index the list; for a list of 8 entries and offset 10 this is the
  sentence with 8 and 10 in it. For an empty daily list the tool returns the sentence of
  line 159 instead, so the claim as stated, for every length and every offset, fails on
  the empty list; it also fails on an offset of more than 4300 digits, for which the tool
  returns the sentence of line 201.
\<close>

theorem get_forecast_for_location_offset_out_of_range:
  assumes "provider (normalize_city city) = PDict kvs"
    and "map_of kvs (asc ''error'') = None"
    and "map_of kvs (asc ''daily'') = Some (PList items)"
    and "int (length items) \<le> day_offset"
  shows "(items \<noteq> [] \<and> day_offset < 10 ^ max_str_digits \<longrightarrow>
           get_forecast_for_location env provider city day_offset =
             ([normalize_city city],
              Inr (lit_only_days_head @ int_digits (int (length items)) @ lit_only_days_tail
                   @ lit_offset_equals @ int_digits day_offset @ lit_out_of_range)))
         \<and> (items = [] \<longrightarrow>
           get_forecast_for_location env provider city day_offset =
             ([normalize_city city],
              Inr (lit_forecast_unexpected @ normalize_city city @ asc ''.'')))"
proof -
  from assms(4) have nonneg: "\<not> day_offset < 0" by simp
  from assms(2) have no_error: "\<not> dict_has (PDict kvs) (asc ''error'')" by simp
  have full: "daily_forecast env (normalize_city city) day_offset (PDict kvs) =
      Inr (lit_only_days_head @ int_digits (int (length items)) @ lit_only_days_tail
           @ lit_offset_equals @ int_digits day_offset @ lit_out_of_range)"
    if "items \<noteq> []" and "day_offset < 10 ^ max_str_digits"
  proof -
    from that(2) assms(4) have "0 \<le> day_offset"
      and shorter: "int (length items) < 10 ^ max_str_digits"
      by linarith+
    with that(2) have "int_str day_offset = Inr (int_digits day_offset)"
      by (simp add: int_str_def)
    moreover have "int_str (int (length items)) = Inr (int_digits (int (length items)))"
      using shorter unfolding int_str_def abs_of_nat by (simp only: not_le [symmetric] if_False)
    ultimately show ?thesis
      using that(1) assms(3,4) by (simp add: daily_forecast_def)
  qed
  have empty: "items = [] \<Longrightarrow> daily_forecast env (normalize_city city) day_offset (PDict kvs) =
      Inr (lit_forecast_unexpected @ normalize_city city @ asc ''.'')"
    using assms(3) by (simp add: daily_forecast_def)
  show ?thesis
    using nonneg no_error assms(1) full empty
    by (simp add: get_forecast_for_location_def Let_def)
qed

theorem get_forecast_for_location_offset_out_of_range_witness:
  "get_forecast_for_location sample_interp
     (\<lambda>c. PDict [(asc ''daily'', PList (replicate 8 (PDict [])))]) (asc ''Oslo'') 10 =
     ([asc ''Oslo''],
      Inr [79, 112, 101, 110, 87, 101, 97, 116, 104, 101, 114, 77, 97, 112, 32, 1074,
            1077, 1088, 1085, 1091, 1083, 32, 1087, 1088, 1086, 1075, 1085, 1086, 1079, 32,
            1090, 1086, 1083, 1100, 1082, 1086, 32, 1085, 1072, 32, 56, 32, 1076, 1085,
            1077, 1081, 46, 32, 100, 97, 121, 95, 111, 102, 102, 115, 101, 116, 61, 49, 48,
            32, 1074, 1099, 1081, 1090, 1080, 32, 1079, 1072, 32, 1076, 1086, 1089, 1090,
            1091, 1087, 1085, 1099, 1081, 32, 1076, 1080, 1072, 1087, 1072, 1079, 1086,
            1085, 46])"
proof -
  have city: "normalize_city (asc ''Oslo'') = asc ''Oslo''"
    by (simp add: normalize_city_def strip_def is_space_def asc_def)
  have numbers: "int_digits 8 = asc ''8''" "int_digits 10 = asc ''10''"
    by (simp_all add: int_digits_def nat_digits.simps asc_def)
  have within: "(10::int) < 10 ^ max_str_digits"
    using below_limit [of 10] by simp
  from get_forecast_for_location_offset_out_of_range
    [of "\<lambda>c. PDict [(asc ''daily'', PList (replicate 8 (PDict [])))]" "asc ''Oslo''"
        "[(asc ''daily'', PList (replicate 8 (PDict [])))]" "replicate 8 (PDict [])" 10
        sample_interp]
  show ?thesis
    by (simp add: city numbers within,
        simp add: asc_def lit_only_days_head_def lit_only_days_tail_def
          lit_offset_equals_def lit_out_of_range_def)
qed

theorem get_forecast_for_location_offset_out_of_range_counterexample:
  "int (length ([] :: pyval list)) \<le> 0
   \<and> get_forecast_for_location sample_interp (\<lambda>c. PDict [(asc ''daily'', PList [])])
        (asc ''Oslo'') 0
       = ([asc ''Oslo''], Inr (lit_forecast_unexpected @ asc ''Oslo.''))
   \<and> get_forecast_for_location sample_interp (\<lambda>c. PDict [(asc ''daily'', PList [])])
        (asc ''Oslo'') 0
       \<noteq> ([asc ''Oslo''],
           Inr (lit_only_days_head @ int_digits (int (length ([] :: pyval list)))
                @ lit_only_days_tail @ lit_offset_equals @ int_digits 0 @ lit_out_of_range))
   \<and> int (length [PDict []]) \<le> 10 ^ max_str_digits
   \<and> get_forecast_for_location sample_interp (\<lambda>c. PDict [(asc ''daily'', PList [PDict []])])
        (asc ''Oslo'') (10 ^ max_str_digits)
       = ([asc ''Oslo''], Inr (lit_processing_failed @ asc ''Oslo: error''))
   \<and> get_forecast_for_location sample_interp (\<lambda>c. PDict [(asc ''daily'', PList [PDict []])])
        (asc ''Oslo'') (10 ^ max_str_digits)
       \<noteq> ([asc ''Oslo''],
           Inr (lit_only_days_head @ int_digits (int (length [PDict []]))
                @ lit_only_days_tail @ lit_offset_equals @ int_digits (10 ^ max_str_digits)
                @ lit_out_of_range))"
proof -
  have city: "normalize_city (asc ''Oslo'') = asc ''Oslo''"
    by (simp add: normalize_city_def strip_def is_space_def asc_def)
  have run: "get_forecast_for_location sample_interp (\<lambda>c. PDict [(asc ''daily'', PList [])])
        (asc ''Oslo'') 0
       = ([asc ''Oslo''], Inr (lit_forecast_unexpected @ asc ''Oslo.''))"
    by (simp add: city get_forecast_for_location_def Let_def,
        simp add: daily_forecast_def asc_def)
  have differ: "lit_forecast_unexpected @ asc ''Oslo.''
      \<noteq> lit_only_days_head @ int_digits (int (length ([] :: pyval list)))
          @ lit_only_days_tail @ lit_offset_equals @ int_digits 0 @ lit_out_of_range"
    by (simp add: lit_forecast_unexpected_def lit_only_days_head_def)
  have one: "int_str 1 = Inr (int_digits 1)"
    by (simp add: int_str_small)
  have huge: "int_str (10 ^ max_str_digits) = Inl (ValueError (PInt (10 ^ max_str_digits)))"
    by (rule int_str_beyond) simp
  have le: "(1::int) \<le> 10 ^ max_str_digits" and nonneg: "\<not> (10::int) ^ max_str_digits < 0"
    by simp_all
  have run_huge: "get_forecast_for_location sample_interp
        (\<lambda>c. PDict [(asc ''daily'', PList [PDict []])]) (asc ''Oslo'') (10 ^ max_str_digits)
       = ([asc ''Oslo''], Inr (lit_processing_failed @ asc ''Oslo: error''))"
    using le nonneg
    by (simp add: city get_forecast_for_location_def Let_def,
        simp add: daily_forecast_def one huge sample_interp_def asc_def)
  have differ_huge: "lit_processing_failed @ asc ''Oslo: error''
      \<noteq> lit_only_days_head @ int_digits (int (length [PDict []]))
          @ lit_only_days_tail @ lit_offset_equals @ int_digits (10 ^ max_str_digits)
          @ lit_out_of_range"
    by (simp add: lit_processing_failed_def lit_only_days_head_def)
  from run differ run_huge differ_huge le show ?thesis by simp
qed

text \<open>
  Claim C8. When the provider returns a record without an error field whose daily list has
  an entry at the non-negative offset \<open>day_offset\<close>, and that entry is a daily entry as
  described above, the tool returns the forecast sentence, in which the city is followed
  by the day label and a colon: the label is the literal of line 181 ("today") for offset
  0, that of line 183 ("tomorrow") for offset 1, and the literal of line 185 around the
  decimal offset ("in N days") for every other offset, so for each offset from 2 on. (The
  offset is within the digit limit of \<open>int_str\<close>, as the length of any list a machine
  holds is.) For an entry of any other shape the tool returns either that sentence, with
  the same label, or the sentence of line 201 about the exception.
\<close>

theorem get_forecast_for_location_day_label:
  assumes "provider (normalize_city city) = PDict kvs"
    and "map_of kvs (asc ''error'') = None"
    and "map_of kvs (asc ''daily'') = Some (PList items)"
    and "0 \<le> day_offset" and "day_offset < int (length items)"
  shows "(daily_entry_ok (items ! nat day_offset) \<and> day_offset < 10 ^ max_str_digits \<longrightarrow>
          (\<exists>rest. snd (get_forecast_for_location env provider city day_offset) =
             Inr (lit_forecast_for @ normalize_city city @ lit_on_day
                  @ (if day_offset = 0 then lit_today
                     else if day_offset = 1 then lit_tomorrow
                     else lit_in_days_head @ int_digits day_offset @ lit_in_days_tail)
                  @ asc '': '' @ rest)))
         \<and> ((\<exists>rest. snd (get_forecast_for_location env provider city day_offset) =
             Inr (lit_forecast_for @ normalize_city city @ lit_on_day
                  @ (if day_offset = 0 then lit_today
                     else if day_offset = 1 then lit_tomorrow
                     else lit_in_days_head @ int_digits day_offset @ lit_in_days_tail)
                  @ asc '': '' @ rest))
            \<or> (\<exists>e. snd (get_forecast_for_location env provider city day_offset) =
             Inr (lit_processing_failed @ normalize_city city @ asc '': ''
                  @ exn_text env e)))"
proof -
  let ?item = "items ! nat day_offset"
  let ?result = "snd (get_forecast_for_location env provider city day_offset)"
  let ?head = "lit_forecast_for @ normalize_city city @ lit_on_day
      @ (if day_offset = 0 then lit_today
         else if day_offset = 1 then lit_tomorrow
         else lit_in_days_head @ int_digits day_offset @ lit_in_days_tail)
      @ asc '': ''"
  from assms(4) have nonneg: "\<not> day_offset < 0" by simp
  from assms(2) have no_error: "\<not> dict_has (PDict kvs) (asc ''error'')" by simp
  from assms(4,5) have nonempty: "items \<noteq> []" by auto
  from assms(4,5) have item: "at_index items day_offset = Some ?item"
    by (simp add: at_index_def)
  from assms(3,5) nonempty item
  have daily: "daily_forecast env (normalize_city city) day_offset (PDict kvs) =
      forecast_sentence env (normalize_city city) day_offset ?item"
    by (simp add: daily_forecast_def)
  have result: "?result =
      (case forecast_sentence env (normalize_city city) day_offset ?item of
         Inr sentence \<Rightarrow> Inr sentence
       | Inl e \<Rightarrow> Inr (lit_processing_failed @ normalize_city city @ asc '': ''
                      @ exn_text env e))"
    using nonneg no_error assms(1) daily
    by (simp add: get_forecast_for_location_def Let_def)
  have any: "(\<exists>rest. ?result = Inr (?head @ rest))
      \<or> (\<exists>e. ?result = Inr (lit_processing_failed @ normalize_city city @ asc '': ''
                           @ exn_text env e))"
  proof (cases "forecast_sentence env (normalize_city city) day_offset ?item")
    case (Inl e)
    with result show ?thesis by auto
  next
    case (Inr s)
    from forecast_sentence_shape [OF Inr] obtain rest where "s = ?head @ rest" by auto
    with result Inr show ?thesis by auto
  qed
  have well_formed: "daily_entry_ok ?item \<and> day_offset < 10 ^ max_str_digits
      \<longrightarrow> (\<exists>rest. ?result = Inr (?head @ rest))"
  proof
    assume ok: "daily_entry_ok ?item \<and> day_offset < 10 ^ max_str_digits"
    with assms(4) have "\<bar>day_offset\<bar> < 10 ^ max_str_digits" by simp
    with ok obtain s
      where s: "forecast_sentence env (normalize_city city) day_offset ?item = Inr s"
      using forecast_sentence_returns by blast
    from forecast_sentence_shape [OF s] obtain rest where "s = ?head @ rest" by auto
    with result s show "\<exists>rest. ?result = Inr (?head @ rest)" by auto
  qed
  from well_formed any show ?thesis
    by simp
qed

theorem get_forecast_for_location_day_label_witness:
  "(\<exists>rest. snd (get_forecast_for_location sample_interp
        (\<lambda>c. PDict [(asc ''daily'', PList (replicate 8 (PDict [])))]) (asc ''Oslo'') 0) =
      Inr (lit_forecast_for @ asc ''Oslo'' @ lit_on_day @ [1089, 1077, 1075, 1086, 1076, 1085, 1103] @ asc '': '' @ rest))
   \<and> (\<exists>rest. snd (get_forecast_for_location sample_interp
        (\<lambda>c. PDict [(asc ''daily'', PList (replicate 8 (PDict [])))]) (asc ''Oslo'') 1) =
      Inr (lit_forecast_for @ asc ''Oslo'' @ lit_on_day @ [1079, 1072, 1074, 1090, 1088, 1072] @ asc '': '' @ rest))
   \<and> (\<exists>rest. snd (get_forecast_for_location sample_interp
        (\<lambda>c. PDict [(asc ''daily'', PList (replicate 8 (PDict [])))]) (asc ''Oslo'') 5) =
      Inr (lit_forecast_for @ asc ''Oslo'' @ lit_on_day @ [1095, 1077, 1088, 1077, 1079, 32, 53, 32, 1076, 1085, 1077, 1081]
           @ asc '': '' @ rest))"
proof -
  let ?provider = "\<lambda>c. PDict [(asc ''daily'', PList (replicate 8 (PDict [])))]"
  have city: "normalize_city (asc ''Oslo'') = asc ''Oslo''"
    by (simp add: normalize_city_def strip_def is_space_def asc_def)
  have five: "int_digits 5 = asc ''5''"
    by (simp add: int_digits_def nat_digits.simps asc_def)
  have within: "(0::int) < 10 ^ max_str_digits" "(1::int) < 10 ^ max_str_digits"
      "(5::int) < 10 ^ max_str_digits"
    using below_limit [of 0] below_limit [of 1] below_limit [of 5] by simp_all
  note label = get_forecast_for_location_day_label
    [of ?provider "asc ''Oslo''" "[(asc ''daily'', PList (replicate 8 (PDict [])))]"
        "replicate 8 (PDict [])" _ sample_interp]
  from label [of 0]
  have "\<exists>rest. snd (get_forecast_for_location sample_interp ?provider (asc ''Oslo'') 0) =
      Inr (lit_forecast_for @ asc ''Oslo'' @ lit_on_day @ [1089, 1077, 1075, 1086, 1076, 1085, 1103] @ asc '': '' @ rest)"
    by (simp add: city within, simp add: asc_def lit_today_def field_def optional_number_def)
  moreover from label [of 1]
  have "\<exists>rest. snd (get_forecast_for_location sample_interp ?provider (asc ''Oslo'') 1) =
      Inr (lit_forecast_for @ asc ''Oslo'' @ lit_on_day @ [1079, 1072, 1074, 1090, 1088, 1072] @ asc '': '' @ rest)"
    by (simp add: city within, simp add: asc_def lit_tomorrow_def field_def optional_number_def)
  moreover from label [of 5]
  have "\<exists>rest. snd (get_forecast_for_location sample_interp ?provider (asc ''Oslo'') 5) =
      Inr (lit_forecast_for @ asc ''Oslo'' @ lit_on_day @ [1095, 1077, 1088, 1077, 1079, 32, 53, 32, 1076, 1085, 1077, 1081]
           @ asc '': '' @ rest)"
    by (simp add: city five within,
        simp add: asc_def lit_in_days_head_def lit_in_days_tail_def field_def
          optional_number_def)
  ultimately show ?thesis by blast
qed

subsection \<open>The current-time tool\<close>

text \<open>
  Claim C9. The string \<open>get_current_time\<close> returns is a function of the host clock's
  reading alone: two calls with the same reading return the same string, whatever their
  \<open>timezone\<close> arguments and whatever the contexts of their runtimes (so whatever
  \<open>default_timezone\<close>) are. The string is the literal of line 236 around the two
  renderings of the reading.
\<close>

theorem get_current_time_ignores_timezone:
  "get_current_time now runtime timezone = get_current_time now runtime' timezone'
   \<and> get_current_time now runtime timezone =
       lit_local_time_head @ strftime now @ lit_iso_open
       @ isoformat (now\<lparr>microsecond := 0\<rparr>) @ asc '')''"
  by (simp add: get_current_time_def Let_def)

theorem get_current_time_ignores_timezone_witness:
  "get_current_time
     \<lparr>year = 2024, month = 3, day = 5, hour = 7, minute = 8, second = 9, microsecond = 123456\<rparr>
     \<lparr>runtime_context = \<lparr>user_id = asc ''user-1'', user_name = asc ''Ivan'',
        default_city = asc ''Irkutsk,ru'', default_timezone = asc ''Europe/Moscow''\<rparr>\<rparr>
     None
   = get_current_time
     \<lparr>year = 2024, month = 3, day = 5, hour = 7, minute = 8, second = 9, microsecond = 123456\<rparr>
     \<lparr>runtime_context = \<lparr>user_id = asc ''user-2'', user_name = asc ''Anna'',
        default_city = asc ''Tokyo,jp'', default_timezone = asc ''Asia/Tokyo''\<rparr>\<rparr>
     (Some (asc ''America/New_York''))
   \<and> get_current_time
     \<lparr>year = 2024, month = 3, day = 5, hour = 7, minute = 8, second = 9, microsecond = 123456\<rparr>
     \<lparr>runtime_context = \<lparr>user_id = asc ''user-1'', user_name = asc ''Ivan'',
        default_city = asc ''Irkutsk,ru'', default_timezone = asc ''Europe/Moscow''\<rparr>\<rparr>
     None
   = [1051, 1086, 1082, 1072, 1083, 1100, 1085, 1086, 1077, 32, 1089, 1080, 1089, 1090,
      1077, 1084, 1085, 1086, 1077, 32, 1074, 1088, 1077, 1084, 1103, 58, 32, 48, 53, 46,
      48, 51, 46, 50, 48, 50, 52, 32, 48, 55, 58, 48, 56, 58, 48, 57, 32, 40, 73, 83, 79,
      58, 32, 50, 48, 50, 52, 45, 48, 51, 45, 48, 53, 84, 48, 55, 58, 48, 56, 58, 48, 57,
      41]"
  by (simp add: get_current_time_ignores_timezone [THEN conjunct2]
      strftime_def isoformat_def zero_pad_def nat_digits.simps asc_def
      lit_local_time_head_def lit_iso_open_def)

end
